theory Spec2Isabelle
  imports Main "HOL-Library.AList" "HOL-Library.Sublist"
begin

section \<open>Python values used by the memory manager\<close>

text \<open>
  The module \<^verbatim>\<open>agno/memory/v2/manager.py\<close> is embedded function by function.
  Python's ambient effects are made explicit: everything outside the manager (the state
  behind the storage backend, the clock, the UUID generator) is one abstract world state
  \<open>'w\<close> that is passed through every call; a raised exception is the \<open>Inl\<close> branch of a
  sum. Logging (\<^verbatim>\<open>log_debug\<close>, \<^verbatim>\<open>log_warning\<close>, \<^verbatim>\<open>log_error\<close>) has no effect on any value
  and is left out.
\<close>

type_synonym datetime = nat

text \<open>What a call can raise. \<^verbatim>\<open>BaseException\<close> stands for an exception outside the
  \<^verbatim>\<open>Exception\<close> hierarchy (\<^verbatim>\<open>KeyboardInterrupt\<close>, \<^verbatim>\<open>SystemExit\<close>, \<^verbatim>\<open>asyncio.CancelledError\<close>);
  the others are instances of \<^verbatim>\<open>Exception\<close>.\<close>

datatype exn =
    Exception string
  | KeyError string
  | ValueError string
  | TypeError string
  | BaseException string

text \<open>\<^verbatim>\<open>isinstance(e, Exception)\<close>: what a clause \<^verbatim>\<open>except Exception\<close> catches.\<close>

fun is_Exception :: "exn \<Rightarrow> bool" where
  "is_Exception (BaseException m) = False"
| "is_Exception e = True"

text \<open>\<^verbatim>\<open>str(e)\<close>, as the f-strings \<^verbatim>\<open>f"...{e}"\<close> render an exception. A \<^verbatim>\<open>KeyError\<close>
  prints the \<^verbatim>\<open>repr\<close> of its key.\<close>

fun str_exn :: "exn \<Rightarrow> string" where
  "str_exn (Exception m) = m"
| "str_exn (KeyError k) = [CHR 0x27] @ k @ [CHR 0x27]"
| "str_exn (ValueError m) = m"
| "str_exn (TypeError m) = m"
| "str_exn (BaseException m) = m"

text \<open>\<^verbatim>\<open>sep.join(xs)\<close>.\<close>

fun join :: "string \<Rightarrow> string list \<Rightarrow> string" where
  "join sep [] = []"
| "join sep [x] = x"
| "join sep (x # y # ys) = x @ sep @ join sep (y # ys)"

text \<open>A dialogue message: a role and an optional textual content.\<close>

record message =
  role :: string
  content :: "string option"

text \<open>Modelled from the spec: \<^verbatim>\<open>Message.get_content_string\<close> is defined in
  \<^verbatim>\<open>agno.models.message\<close>, which is not part of the sources at hand. A dialogue message
  carries textual content; the content string of a message is that text, and the empty
  string when the message has no content.\<close>

definition get_content_string :: "message \<Rightarrow> string" where
  "get_content_string m = (case content m of None \<Rightarrow> [] | Some s \<Rightarrow> s)"

text \<open>Python truthiness of \<^verbatim>\<open>m.content\<close>: neither \<^verbatim>\<open>None\<close> nor the empty string.\<close>

definition content_truthy :: "message \<Rightarrow> bool" where
  "content_truthy m = (case content m of None \<Rightarrow> False | Some s \<Rightarrow> s \<noteq> [])"

text \<open>An existing memory is a \<^verbatim>\<open>Dict[str, Any]\<close>; a value is kept as the string that
  formatting it into an f-string yields.\<close>

type_synonym py_dict = "string \<rightharpoonup> string"

definition subscript :: "py_dict \<Rightarrow> string \<Rightarrow> exn + string" where
  "subscript d k = (case d k of None \<Rightarrow> Inl (KeyError k) | Some v \<Rightarrow> Inr v)"

section \<open>The model, its tools and the storage backend\<close>

text \<open>The payload \<^verbatim>\<open>UserMemory(...).to_dict()\<close> and the \<^verbatim>\<open>MemoryRow\<close> handed to the
  backend, with the fields the tool closures fill in.\<close>

record user_memory =
  um_memory_id :: string
  um_memory :: string
  um_topics :: "string list option"
  um_last_updated :: datetime
  um_input :: string

record memory_row =
  row_id :: string
  row_user_id :: string
  row_memory :: user_memory
  row_last_updated :: datetime

text \<open>\<^verbatim>\<open>MemoryDb\<close>: the three calls the tools make. Each may raise any exception and may
  change the world whether it raises or not.\<close>

record 'w memory_db =
  db_upsert_memory :: "memory_row \<Rightarrow> 'w \<Rightarrow> (exn + unit) \<times> 'w"
  db_delete_memory :: "string \<Rightarrow> 'w \<Rightarrow> (exn + unit) \<times> 'w"
  db_clear :: "'w \<Rightarrow> (exn + unit) \<times> 'w"

text \<open>A call of one of the four tools with the keyword arguments of its signature:
  \<^verbatim>\<open>add_memory(memory, topics)\<close>, \<^verbatim>\<open>update_memory(memory_id, memory, topics)\<close>,
  \<^verbatim>\<open>delete_memory(memory_id)\<close> and \<^verbatim>\<open>clear_memory()\<close>.\<close>

datatype tool_call =
    Call_add_memory string "string list option"
  | Call_update_memory string string "string list option"
  | Call_delete_memory string
  | Call_clear_memory

fun tool_name :: "tool_call \<Rightarrow> string" where
  "tool_name (Call_add_memory memory topics) = ''add_memory''"
| "tool_name (Call_update_memory memory_id memory topics) = ''update_memory''"
| "tool_name (Call_delete_memory memory_id) = ''delete_memory''"
| "tool_name Call_clear_memory = ''clear_memory''"

text \<open>A Python callable: its \<^verbatim>\<open>__name__\<close> and what calling it with the arguments of a tool
  call does.\<close>

record 'w callable =
  dunder_name :: string
  call :: "tool_call \<Rightarrow> 'w \<Rightarrow> (exn + string) \<times> 'w"

text \<open>\<^verbatim>\<open>agno.tools.function.Function\<close> and the dictionary \<^verbatim>\<open>Function.to_dict()\<close> shown to
  the model.\<close>

record 'w func =
  func_name :: string
  func_strict :: bool
  func_parameters :: string
  func_entrypoint :: "tool_call \<Rightarrow> 'w \<Rightarrow> (exn + string) \<times> 'w"

record function_dict =
  fd_name :: string
  fd_strict :: bool
  fd_parameters :: string

record tool_dict =
  tool_type :: string
  tool_function :: function_dict

text \<open>Modelled from the spec: \<^verbatim>\<open>Function.to_dict\<close> is defined in \<^verbatim>\<open>agno.tools.function\<close>,
  which is not part of the sources at hand. It is the description of a callable (its name
  and parameter schema) presented to the model.\<close>

definition to_dict :: "'w func \<Rightarrow> function_dict" where
  "to_dict f = \<lparr>fd_name = func_name f, fd_strict = func_strict f,
     fd_parameters = func_parameters f\<rparr>"

text \<open>A model response: optional text and the optional list of tool invocations.\<close>

record model_response =
  resp_content :: "string option"
  resp_tool_calls :: "tool_call list option"

text \<open>\<^verbatim>\<open>agno.models.base.Model\<close>: the tools and functions set on the instance, and its two
  inference calls. What an inference call does is the model's own business: it is given the
  instance's tools and functions and the messages, may run the functions against the world,
  and returns a response or raises.\<close>

record 'w model =
  model_tools :: "tool_dict list option"
  model_functions :: "(string \<times> 'w func) list option"
  response :: "tool_dict list option \<Rightarrow> (string \<times> 'w func) list option \<Rightarrow>
     message list \<Rightarrow> 'w \<Rightarrow> (exn + model_response) \<times> 'w"
  aresponse :: "tool_dict list option \<Rightarrow> (string \<times> 'w func) list option \<Rightarrow>
     message list \<Rightarrow> 'w \<Rightarrow> (exn + model_response) \<times> 'w"

text \<open>Modelled from the spec: \<^verbatim>\<open>reset_tools_and_functions\<close>, \<^verbatim>\<open>set_tools\<close> and
  \<^verbatim>\<open>set_functions\<close> are methods of \<^verbatim>\<open>agno.models.base.Model\<close>, which is not part of the
  sources at hand. The first clears what is set on the instance, the others store their
  argument on it.\<close>

definition reset_tools_and_functions :: "'w model \<Rightarrow> 'w model" where
  "reset_tools_and_functions m = m\<lparr>model_tools := None, model_functions := None\<rparr>"

definition set_tools :: "tool_dict list \<Rightarrow> 'w model \<Rightarrow> 'w model" where
  "set_tools ts m = m\<lparr>model_tools := Some ts\<rparr>"

definition set_functions :: "(string \<times> 'w func) list \<Rightarrow> 'w model \<Rightarrow> 'w model" where
  "set_functions fs m = m\<lparr>model_functions := Some fs\<rparr>"

text \<open>The Python runtime the module reads: \<^verbatim>\<open>datetime.now()\<close>, \<^verbatim>\<open>str(uuid4())\<close> and the
  schema reflection \<^verbatim>\<open>Function.from_callable(tool, strict=True)\<close>, which may raise.\<close>

record 'w runtime =
  datetime_now :: "'w \<Rightarrow> datetime \<times> 'w"
  uuid4_str :: "'w \<Rightarrow> string \<times> 'w"
  from_callable :: "'w callable \<Rightarrow> exn + 'w func"

section \<open>MemoryManager\<close>

record 'w memory_manager =
  model :: "'w model option"
  system_prompt :: "string option"
  memories_updated :: bool

text \<open>\<^verbatim>\<open>__init__\<close>: the argument \<^verbatim>\<open>model\<close> may be absent, a model object or (against its
  annotation) a string, which is refused. \<^verbatim>\<open>memories_updated\<close> is the class default.\<close>

datatype 'w model_arg = ModelObject "'w model" | ModelString string

definition init :: "'w model_arg option \<Rightarrow> string option \<Rightarrow> exn + 'w memory_manager" where
  "init model_in system_prompt_in =
     (case model_in of
        Some (ModelString s) \<Rightarrow> Inl (ValueError ''Model must be a Model object, not a string'')
      | Some (ModelObject m) \<Rightarrow>
          Inr \<lparr>model = Some m, system_prompt = system_prompt_in, memories_updated = False\<rparr>
      | None \<Rightarrow>
          Inr \<lparr>model = None, system_prompt = system_prompt_in, memories_updated = False\<rparr>)"

subsection \<open>add_tools_to_model\<close>

text \<open>The loop over \<^verbatim>\<open>tools\<close>, on the pair \<^verbatim>\<open>(_tools_for_model, _functions_for_model)\<close>.
  A tool whose name is already a key is passed over; one whose schema derivation raises an
  \<^verbatim>\<open>Exception\<close> is passed over by the \<^verbatim>\<open>except Exception\<close> branch; anything else it raises
  leaves the loop.\<close>

fun add_tools_loop :: "'w runtime \<Rightarrow> 'w callable list \<Rightarrow>
    tool_dict list \<times> (string \<times> 'w func) list \<Rightarrow>
    exn + tool_dict list \<times> (string \<times> 'w func) list" where
  "add_tools_loop rt [] acc = Inr acc"
| "add_tools_loop rt (tool # tools) (tools_for_model, functions_for_model) =
     (let function_name = dunder_name tool in
      if function_name \<notin> fst ` set functions_for_model then
        (case from_callable rt tool of
           Inl e \<Rightarrow>
             if is_Exception e then add_tools_loop rt tools (tools_for_model, functions_for_model)
             else Inl e
         | Inr func0 \<Rightarrow>
             (let func = func0\<lparr>func_strict := True\<rparr> in
              add_tools_loop rt tools
                (tools_for_model @ [\<lparr>tool_type = ''function'', tool_function = to_dict func\<rparr>],
                 AList.update (func_name func) func functions_for_model)))
      else add_tools_loop rt tools (tools_for_model, functions_for_model))"

text \<open>The Python mutates the model it is given and returns nothing; here the model with the
  tools set is returned, or the exception that left the loop.\<close>

definition add_tools_to_model :: "'w runtime \<Rightarrow> 'w model \<Rightarrow> 'w callable list \<Rightarrow> exn + 'w model" where
  "add_tools_to_model rt model_in tools =
     (let m = reset_tools_and_functions model_in in
      case add_tools_loop rt tools ([], []) of
        Inl e \<Rightarrow> Inl e
      | Inr (tools_for_model, functions_for_model) \<Rightarrow>
          Inr (set_functions functions_for_model (set_tools tools_for_model m)))"

subsection \<open>get_system_message\<close>

definition task_line :: string where
  "task_line =
     ''Your task is to add, update, or delete memories based on the user's task. '' @
     ''You can also decide that no new memories or other changes are needed. '' @
     ''If you do create new memories, create one or more memories that captures the key information provided by the user, as if you were storing it for future reference. '' @
     ''Memories should be a brief, third-person statement that encapsulates the most important aspect of the user's input, without adding any extraneous information. '' @
     ''Don't make a single memory too long, but do create multiple memories if needed to capture all the information. '' @
     ''When updating a memory, append the existing memory with new information rather than completely overwriting it. '' @
     ''If there is no new information, do not update the memory. '' @
     ''Memories should include details that could personalize ongoing interactions with the user, such as:'' @
     ''  - Personal facts: name, age, occupation, location, interests, preferences, etc.'' @
     ''  - Significant life events or experiences shared by the user'' @
     ''  - Important context about the user's current situation, challenges or goals'' @
     ''  - What the user likes or dislikes, their opinions, beliefs, values, etc.'' @
     ''  - Any other details that provide valuable insights into the user's personality, perspective or needs''"

definition intro_line :: string where
  "intro_line = ''You will also be provided with a list of existing memories. You may:''"

definition option_1 :: string where
  "option_1 = ''  1. Decide to make no changes to the existing memories.''"

definition option_2 :: string where
  "option_2 = ''  2. Decide to add a new memory using the `add_memory` tool.''"

definition option_3 :: string where
  "option_3 = ''  3. Decide to update an existing memory using the `update_memory` tool.''"

definition option_4 :: string where
  "option_4 = ''  4. Decide to delete an existing memory using the `delete_memory` tool.''"

definition option_5 :: string where
  "option_5 = ''  5. Decide to clear all memories using the `clear_memory` tool.''"

definition multiple_line :: string where
  "multiple_line = ''You can call multiple of these tools in a single response if needed. ''"

definition only_line :: string where
  "only_line = ''Only add or update memories if it is necessary to capture key information provided by the user.''"

text \<open>The loop collecting the content strings of the messages whose role is \<^verbatim>\<open>user\<close>.\<close>

fun collect_user_messages :: "string list \<Rightarrow> message list \<Rightarrow> string list" where
  "collect_user_messages user_messages [] = user_messages"
| "collect_user_messages user_messages (m # ms) =
     collect_user_messages
       (if role m = ''user'' then user_messages @ [get_content_string m] else user_messages) ms"

text \<open>The loop over \<^verbatim>\<open>existing_memories\<close>: three appended elements per entry. A dictionary
  without the key \<^verbatim>\<open>memory_id\<close> or \<^verbatim>\<open>memory\<close> raises \<^verbatim>\<open>KeyError\<close>.\<close>

fun append_existing_memories :: "string list \<Rightarrow> py_dict list \<Rightarrow> exn + string list" where
  "append_existing_memories system_prompt_lines [] = Inr system_prompt_lines"
| "append_existing_memories system_prompt_lines (existing_memory # rest) =
     (case subscript existing_memory ''memory_id'' of
        Inl e \<Rightarrow> Inl e
      | Inr memory_id \<Rightarrow>
          (case subscript existing_memory ''memory'' of
             Inl e \<Rightarrow> Inl e
           | Inr memory \<Rightarrow>
               append_existing_memories
                 (system_prompt_lines @ [''ID: '' @ memory_id, ''Memory: '' @ memory, ''\<newline>''])
                 rest))"

text \<open>The value of the local \<^verbatim>\<open>system_prompt_lines\<close> when \<^verbatim>\<open>get_system_message\<close> joins it.
  The manager itself is an argument, as \<^verbatim>\<open>self\<close> is.\<close>

definition system_prompt_lines :: "'w memory_manager \<Rightarrow> py_dict list option \<Rightarrow>
    message list option \<Rightarrow> bool \<Rightarrow> bool \<Rightarrow> exn + string list" where
  "system_prompt_lines self existing_memories messages enable_delete_memory enable_clear_memory =
     (let l0 = [task_line, intro_line, option_1, option_2, option_3];
          l1 = (if enable_delete_memory then l0 @ [option_4] else l0);
          l2 = (if enable_clear_memory then l1 @ [option_5] else l1);
          l3 = l2 @ [multiple_line, only_line];
          l4 = (case messages of
                  None \<Rightarrow> l3
                | Some ms \<Rightarrow>
                    if ms \<noteq> [] then
                      l3 @ [''\<newline><user_messages>'',
                            join ''\<newline>'' (collect_user_messages [] ms),
                            ''</user_messages>'']
                    else l3)
      in case existing_memories of
           None \<Rightarrow> Inr l4
         | Some es \<Rightarrow>
             if es \<noteq> [] \<and> length es > 0 then
               (case append_existing_memories (l4 @ [''<existing_memories>'']) es of
                  Inl e \<Rightarrow> Inl e
                | Inr l5 \<Rightarrow> Inr (l5 @ [''</existing_memories>'']))
             else Inr l4)"

definition get_system_message :: "'w memory_manager \<Rightarrow> py_dict list option \<Rightarrow>
    message list option \<Rightarrow> bool \<Rightarrow> bool \<Rightarrow> exn + message" where
  "get_system_message self existing_memories messages enable_delete_memory enable_clear_memory =
     (case system_prompt_lines self existing_memories messages
             enable_delete_memory enable_clear_memory of
        Inl e \<Rightarrow> Inl e
      | Inr ls \<Rightarrow> Inr \<lparr>role = ''system'', content = Some (join ''\<newline>'' ls)\<rparr>)"

subsection \<open>The tools built by _get_db_tools\<close>

text \<open>The four closures over \<^verbatim>\<open>user_id\<close>, \<^verbatim>\<open>db\<close> and \<^verbatim>\<open>input_string\<close>. The first three
  wrap their storage call in \<^verbatim>\<open>try ... except Exception\<close>, which lets an exception outside the
  \<^verbatim>\<open>Exception\<close> hierarchy pass; \<^verbatim>\<open>clear_memory\<close> calls \<^verbatim>\<open>db.clear()\<close> bare.\<close>

definition add_memory :: "'w runtime \<Rightarrow> string \<Rightarrow> 'w memory_db \<Rightarrow> string \<Rightarrow>
    string \<Rightarrow> string list option \<Rightarrow> 'w \<Rightarrow> (exn + string) \<times> 'w" where
  "add_memory rt user_id db input_string memory topics w =
     (let (last_updated, w1) = datetime_now rt w;
          (memory_id, w2) = uuid4_str rt w1
      in case db_upsert_memory db
                \<lparr>row_id = memory_id, row_user_id = user_id,
                 row_memory = \<lparr>um_memory_id = memory_id, um_memory = memory, um_topics = topics,
                                um_last_updated = last_updated, um_input = input_string\<rparr>,
                 row_last_updated = last_updated\<rparr> w2 of
           (Inl e, w3) \<Rightarrow>
             if is_Exception e then (Inr (''Error adding memory: '' @ str_exn e), w3)
             else (Inl e, w3)
         | (Inr u, w3) \<Rightarrow> (Inr ''Memory added successfully'', w3))"

definition update_memory :: "'w runtime \<Rightarrow> string \<Rightarrow> 'w memory_db \<Rightarrow> string \<Rightarrow>
    string \<Rightarrow> string \<Rightarrow> string list option \<Rightarrow> 'w \<Rightarrow> (exn + string) \<times> 'w" where
  "update_memory rt user_id db input_string memory_id memory topics w =
     (let (last_updated, w1) = datetime_now rt w
      in case db_upsert_memory db
                \<lparr>row_id = memory_id, row_user_id = user_id,
                 row_memory = \<lparr>um_memory_id = memory_id, um_memory = memory, um_topics = topics,
                                um_last_updated = last_updated, um_input = input_string\<rparr>,
                 row_last_updated = last_updated\<rparr> w1 of
           (Inl e, w2) \<Rightarrow>
             if is_Exception e then (Inr (''Error adding memory: '' @ str_exn e), w2)
             else (Inl e, w2)
         | (Inr u, w2) \<Rightarrow> (Inr ''Memory updated successfully'', w2))"

definition delete_memory :: "'w memory_db \<Rightarrow> string \<Rightarrow> 'w \<Rightarrow> (exn + string) \<times> 'w" where
  "delete_memory db memory_id w =
     (case db_delete_memory db memory_id w of
        (Inl e, w1) \<Rightarrow>
          if is_Exception e then (Inr (''Error deleting memory: '' @ str_exn e), w1)
          else (Inl e, w1)
      | (Inr u, w1) \<Rightarrow> (Inr ''Memory deleted successfully'', w1))"

definition clear_memory :: "'w memory_db \<Rightarrow> 'w \<Rightarrow> (exn + string) \<times> 'w" where
  "clear_memory db w =
     (case db_clear db w of
        (Inl e, w1) \<Rightarrow> (Inl e, w1)
      | (Inr u, w1) \<Rightarrow> (Inr ''Memory cleared successfully'', w1))"

text \<open>The closures as callables. Arguments that do not fit the signature raise
  \<^verbatim>\<open>TypeError\<close>, as a Python call does.\<close>

definition add_memory_tool :: "'w runtime \<Rightarrow> string \<Rightarrow> 'w memory_db \<Rightarrow> string \<Rightarrow> 'w callable" where
  "add_memory_tool rt user_id db input_string =
     \<lparr>dunder_name = ''add_memory'',
      call = (\<lambda>args w. case args of
                Call_add_memory memory topics \<Rightarrow>
                  add_memory rt user_id db input_string memory topics w
              | _ \<Rightarrow> (Inl (TypeError ''add_memory()''), w))\<rparr>"

definition update_memory_tool :: "'w runtime \<Rightarrow> string \<Rightarrow> 'w memory_db \<Rightarrow> string \<Rightarrow> 'w callable" where
  "update_memory_tool rt user_id db input_string =
     \<lparr>dunder_name = ''update_memory'',
      call = (\<lambda>args w. case args of
                Call_update_memory memory_id memory topics \<Rightarrow>
                  update_memory rt user_id db input_string memory_id memory topics w
              | _ \<Rightarrow> (Inl (TypeError ''update_memory()''), w))\<rparr>"

definition delete_memory_tool :: "'w memory_db \<Rightarrow> 'w callable" where
  "delete_memory_tool db =
     \<lparr>dunder_name = ''delete_memory'',
      call = (\<lambda>args w. case args of
                Call_delete_memory memory_id \<Rightarrow> delete_memory db memory_id w
              | _ \<Rightarrow> (Inl (TypeError ''delete_memory()''), w))\<rparr>"

definition clear_memory_tool :: "'w memory_db \<Rightarrow> 'w callable" where
  "clear_memory_tool db =
     \<lparr>dunder_name = ''clear_memory'',
      call = (\<lambda>args w. case args of
                Call_clear_memory \<Rightarrow> clear_memory db w
              | _ \<Rightarrow> (Inl (TypeError ''clear_memory()''), w))\<rparr>"

definition get_db_tools :: "'w runtime \<Rightarrow> string \<Rightarrow> 'w memory_db \<Rightarrow> string \<Rightarrow>
    bool \<Rightarrow> bool \<Rightarrow> bool \<Rightarrow> bool \<Rightarrow> 'w callable list" where
  "get_db_tools rt user_id db input_string
       enable_add_memory enable_update_memory enable_delete_memory enable_clear_memory =
     (let f0 = [];
          f1 = (if enable_add_memory then f0 @ [add_memory_tool rt user_id db input_string] else f0);
          f2 = (if enable_update_memory
                then f1 @ [update_memory_tool rt user_id db input_string] else f1);
          f3 = (if enable_delete_memory then f2 @ [delete_memory_tool db] else f2);
          f4 = (if enable_clear_memory then f3 @ [clear_memory_tool db] else f3)
      in f4)"

subsection \<open>The four entry points\<close>

text \<open>The synthetic input string of the two dialogue entry points (the same expression in
  both).\<close>

definition input_string_of :: "message list \<Rightarrow> string" where
  "input_string_of messages =
     (if length messages = 1 then get_content_string (messages ! 0)
      else ''['' @
           join '', '' (map get_content_string
                          (filter (\<lambda>m. role m = ''user'' \<and> content_truthy m) messages)) @
           '']'')"

text \<open>\<^verbatim>\<open>response.tool_calls is not None and len(response.tool_calls) > 0\<close> and
  \<^verbatim>\<open>response.content or "No response from model"\<close>, as all four entry points end.\<close>

definition reports_tool_calls :: "model_response \<Rightarrow> bool" where
  "reports_tool_calls r = (case resp_tool_calls r of None \<Rightarrow> False | Some tc \<Rightarrow> length tc > 0)"

definition content_or_default :: "model_response \<Rightarrow> string" where
  "content_or_default r =
     (case resp_content r of
        None \<Rightarrow> ''No response from model''
      | Some c \<Rightarrow> if c \<noteq> [] then c else ''No response from model'')"

text \<open>\<^verbatim>\<open>deepcopy\<close>: values are immutable here, so the copy is the value; the manager's own
  model is never changed by what is done to the copy.\<close>

definition deepcopy :: "'a \<Rightarrow> 'a" where
  "deepcopy x = x"

text \<open>An entry point returns its result (or the exception that escapes it), the manager as
  the call leaves it, and the world.\<close>

definition create_or_update_memories :: "'w runtime \<Rightarrow> 'w memory_manager \<Rightarrow> message list \<Rightarrow>
    py_dict list \<Rightarrow> string \<Rightarrow> 'w memory_db \<Rightarrow> 'w \<Rightarrow> (exn + string) \<times> 'w memory_manager \<times> 'w" where
  "create_or_update_memories rt self messages existing_memories user_id db w =
     (case model self of
        None \<Rightarrow> (Inr ''No model provided for memory manager'', self, w)
      | Some self_model \<Rightarrow>
          (let input_string = input_string_of messages in
           case add_tools_to_model rt (deepcopy self_model)
                  (get_db_tools rt user_id db input_string True True False False) of
             Inl e \<Rightarrow> (Inl e, self, w)
           | Inr model_copy \<Rightarrow>
               (case get_system_message self (Some existing_memories) (Some messages) False False of
                  Inl e \<Rightarrow> (Inl e, self, w)
                | Inr system_message \<Rightarrow>
                    (case response model_copy (model_tools model_copy) (model_functions model_copy)
                            [system_message,
                             \<lparr>role = ''user'',
                              content = Some ''Create or update memories based on the user's messages.''\<rparr>]
                            w of
                       (Inl e, w') \<Rightarrow> (Inl e, self, w')
                     | (Inr resp, w') \<Rightarrow>
                         (Inr (content_or_default resp),
                          (if reports_tool_calls resp then self\<lparr>memories_updated := True\<rparr> else self),
                          w')))))"

definition acreate_or_update_memories :: "'w runtime \<Rightarrow> 'w memory_manager \<Rightarrow> message list \<Rightarrow>
    py_dict list \<Rightarrow> string \<Rightarrow> 'w memory_db \<Rightarrow> 'w \<Rightarrow> (exn + string) \<times> 'w memory_manager \<times> 'w" where
  "acreate_or_update_memories rt self messages existing_memories user_id db w =
     (case model self of
        None \<Rightarrow> (Inr ''No model provided for memory manager'', self, w)
      | Some self_model \<Rightarrow>
          (let input_string = input_string_of messages in
           case add_tools_to_model rt (deepcopy self_model)
                  (get_db_tools rt user_id db input_string True True False False) of
             Inl e \<Rightarrow> (Inl e, self, w)
           | Inr model_copy \<Rightarrow>
               (case get_system_message self (Some existing_memories) (Some messages) True True of
                  Inl e \<Rightarrow> (Inl e, self, w)
                | Inr system_message \<Rightarrow>
                    (case aresponse model_copy (model_tools model_copy) (model_functions model_copy)
                            [system_message,
                             \<lparr>role = ''user'',
                              content = Some ''Create or update memories based on the user's messages.''\<rparr>]
                            w of
                       (Inl e, w') \<Rightarrow> (Inl e, self, w')
                     | (Inr resp, w') \<Rightarrow>
                         (Inr (content_or_default resp),
                          (if reports_tool_calls resp then self\<lparr>memories_updated := True\<rparr> else self),
                          w')))))"

definition run_memory_task :: "'w runtime \<Rightarrow> 'w memory_manager \<Rightarrow> string \<Rightarrow>
    py_dict list \<Rightarrow> string \<Rightarrow> 'w memory_db \<Rightarrow> 'w \<Rightarrow> (exn + string) \<times> 'w memory_manager \<times> 'w" where
  "run_memory_task rt self task existing_memories user_id db w =
     (case model self of
        None \<Rightarrow> (Inr ''No model provided for memory manager'', self, w)
      | Some self_model \<Rightarrow>
          (case add_tools_to_model rt (deepcopy self_model)
                  (get_db_tools rt user_id db task True True True True) of
             Inl e \<Rightarrow> (Inl e, self, w)
           | Inr model_copy \<Rightarrow>
               (case get_system_message self (Some existing_memories) None True True of
                  Inl e \<Rightarrow> (Inl e, self, w)
                | Inr system_message \<Rightarrow>
                    (case response model_copy (model_tools model_copy) (model_functions model_copy)
                            [system_message, \<lparr>role = ''user'', content = Some task\<rparr>] w of
                       (Inl e, w') \<Rightarrow> (Inl e, self, w')
                     | (Inr resp, w') \<Rightarrow>
                         (Inr (content_or_default resp),
                          (if reports_tool_calls resp then self\<lparr>memories_updated := True\<rparr> else self),
                          w')))))"

definition arun_memory_task :: "'w runtime \<Rightarrow> 'w memory_manager \<Rightarrow> string \<Rightarrow>
    py_dict list \<Rightarrow> string \<Rightarrow> 'w memory_db \<Rightarrow> 'w \<Rightarrow> (exn + string) \<times> 'w memory_manager \<times> 'w" where
  "arun_memory_task rt self task existing_memories user_id db w =
     (case model self of
        None \<Rightarrow> (Inr ''No model provided for memory manager'', self, w)
      | Some self_model \<Rightarrow>
          (case add_tools_to_model rt (deepcopy self_model)
                  (get_db_tools rt user_id db task True True True True) of
             Inl e \<Rightarrow> (Inl e, self, w)
           | Inr model_copy \<Rightarrow>
               (case get_system_message self (Some existing_memories) None True True of
                  Inl e \<Rightarrow> (Inl e, self, w)
                | Inr system_message \<Rightarrow>
                    (case aresponse model_copy (model_tools model_copy) (model_functions model_copy)
                            [system_message, \<lparr>role = ''user'', content = Some task\<rparr>] w of
                       (Inl e, w') \<Rightarrow> (Inl e, self, w')
                     | (Inr resp, w') \<Rightarrow>
                         (Inr (content_or_default resp),
                          (if reports_tool_calls resp then self\<lparr>memories_updated := True\<rparr> else self),
                          w')))))"

section \<open>A model that runs its function calls\<close>

text \<open>What a model decides: to answer with its final text, or to call a tool and go on
  from the string the tool returns.\<close>

datatype plan =
    Respond "string option"
  | Invoke tool_call "string \<Rightarrow> plan"

text \<open>Modelled from the spec: \<^verbatim>\<open>Model.response\<close> and \<^verbatim>\<open>Model.aresponse\<close> are defined in
  \<^verbatim>\<open>agno.models.base\<close>, which is not part of the sources at hand. Generating a response
  includes running the function calls: a tool the model invokes is looked up by name among
  the functions set on the instance and run, its string result is returned to the model,
  and the response carries the final text and the invoked tool calls. A call of a function
  that is not set is answered with a notice; an exception that a tool lets pass is not
  caught.\<close>

primrec run_plan :: "(string \<times> 'w func) list \<Rightarrow> plan \<Rightarrow> tool_call list \<Rightarrow> 'w \<Rightarrow>
    (exn + model_response) \<times> 'w" where
  "run_plan fs (Respond c) calls w = (Inr \<lparr>resp_content = c, resp_tool_calls = Some calls\<rparr>, w)"
| "run_plan fs (Invoke tc k) calls w =
     (case map_of fs (tool_name tc) of
        None \<Rightarrow> run_plan fs (k ''Could not find function to call.'') calls w
      | Some f \<Rightarrow>
          (case func_entrypoint f tc w of
             (Inl e, w') \<Rightarrow> (Inl e, w')
           | (Inr result, w') \<Rightarrow> run_plan fs (k result) (calls @ [tc]) w'))"

definition run_functions :: "(tool_dict list option \<Rightarrow> message list \<Rightarrow> plan) \<Rightarrow>
    tool_dict list option \<Rightarrow> (string \<times> 'w func) list option \<Rightarrow> message list \<Rightarrow> 'w \<Rightarrow>
    (exn + model_response) \<times> 'w" where
  "run_functions brain tools functions messages w =
     run_plan (case functions of None \<Rightarrow> [] | Some fs \<Rightarrow> fs) (brain tools messages) [] w"

definition scripted_model :: "(tool_dict list option \<Rightarrow> message list \<Rightarrow> plan) \<Rightarrow> 'w model" where
  "scripted_model brain =
     \<lparr>model_tools = None, model_functions = None,
      response = run_functions brain, aresponse = run_functions brain\<rparr>"

section \<open>Notions the properties are stated with\<close>

text \<open>The synthetic input string as the specification words it: the content of the only
  message, or the bracketed, comma-joined contents of the user-authored messages.\<close>

definition claimed_input_string :: "message list \<Rightarrow> string" where
  "claimed_input_string messages =
     (if length messages = 1 then get_content_string (hd messages)
      else ''['' @
           join '', '' (map get_content_string (filter (\<lambda>m. role m = ''user'') messages)) @
           '']'')"

text \<open>The lines of a text (\<^verbatim>\<open>text.split("\n")\<close>), the text of a rendered system message, and
  a line that carries both an identifier and a memory text.\<close>

fun split_lines :: "string \<Rightarrow> string list" where
  "split_lines [] = [[]]"
| "split_lines (c # cs) =
     (if c = CHR 0x0A then [] # split_lines cs
      else (case split_lines cs of [] \<Rightarrow> [[c]] | l # ls \<Rightarrow> (c # l) # ls))"

definition rendered :: "exn + message \<Rightarrow> string" where
  "rendered r = (case r of Inl e \<Rightarrow> [] | Inr m \<Rightarrow> get_content_string m)"

definition line_carries :: "string \<Rightarrow> string \<Rightarrow> string \<Rightarrow> bool" where
  "line_carries ident text l = (sublist ident l \<and> sublist text l)"

text \<open>An existing memory with both keys, and the text it is rendered as: a line with the
  identifier, a line with the memory, and two empty lines.\<close>

definition has_keys :: "py_dict \<Rightarrow> bool" where
  "has_keys e = (e ''memory_id'' \<noteq> None \<and> e ''memory'' \<noteq> None)"

definition entry_text :: "py_dict \<Rightarrow> string" where
  "entry_text e =
     (case (e ''memory_id'', e ''memory'') of
        (Some memory_id, Some memory) \<Rightarrow>
          ''ID: '' @ memory_id @ ''\<newline>'' @ ''Memory: '' @ memory @ ''\<newline>\<newline>\<newline>''
      | _ \<Rightarrow> [])"

text \<open>The text embedded after the instruction: the section with the user-authored part of
  the dialogue (for a non-empty message list) and the section with the existing memories
  (for a non-empty list of them), every entry as its identifier and its text. An entry
  without one of the two keys makes the rendering raise \<^verbatim>\<open>KeyError\<close> for the first key
  missing.\<close>

definition dialogue_section :: "message list option \<Rightarrow> string list" where
  "dialogue_section messages =
     (case messages of
        None \<Rightarrow> []
      | Some ms \<Rightarrow>
          if ms = [] then []
          else [''\<newline><user_messages>'',
                join ''\<newline>'' (map get_content_string (filter (\<lambda>m. role m = ''user'') ms)),
                ''</user_messages>''])"

fun missing_key :: "py_dict list \<Rightarrow> string option" where
  "missing_key [] = None"
| "missing_key (e # es) =
     (if e ''memory_id'' = None then Some ''memory_id''
      else if e ''memory'' = None then Some ''memory''
      else missing_key es)"

definition entries_section :: "py_dict list option \<Rightarrow> exn + string list" where
  "entries_section existing =
     (case existing of
        None \<Rightarrow> Inr []
      | Some es \<Rightarrow>
          if es = [] then Inr []
          else (case missing_key es of
                  Some k \<Rightarrow> Inl (KeyError k)
                | None \<Rightarrow>
                    Inr ([''<existing_memories>''] @
                         concat (map (\<lambda>e. [''ID: '' @ the (e ''memory_id''),
                                            ''Memory: '' @ the (e ''memory''), ''\<newline>'']) es) @
                         [''</existing_memories>''])))"

text \<open>An entry point's outcome follows the answer of an inference call: an exception of the
  call escapes and the manager is untouched; a response gives its text (or the fallback) as
  result, and the flag is its prior value or true, as the response reports tool calls.\<close>

definition follows_response :: "'w memory_manager \<Rightarrow> (exn + model_response) \<times> 'w \<Rightarrow>
    (exn + string) \<times> 'w memory_manager \<times> 'w \<Rightarrow> bool" where
  "follows_response self answer out =
     (case answer of
        (Inl e, w') \<Rightarrow> out = (Inl e, self, w')
      | (Inr resp, w') \<Rightarrow>
          out = (Inr (content_or_default resp),
                 self\<lparr>memories_updated := memories_updated self \<or> reports_tool_calls resp\<rparr>,
                 w'))"

text \<open>One call of any of the four entry points, as a step from the manager and the world
  before it to the manager and the world after it.\<close>

inductive call_step :: "'w runtime \<Rightarrow> 'w memory_manager \<times> 'w \<Rightarrow> 'w memory_manager \<times> 'w \<Rightarrow> bool"
  for rt :: "'w runtime" where
  step_create:
    "create_or_update_memories rt self messages existing_memories user_id db w = (res, self', w')
     \<Longrightarrow> call_step rt (self, w) (self', w')"
| step_acreate:
    "acreate_or_update_memories rt self messages existing_memories user_id db w = (res, self', w')
     \<Longrightarrow> call_step rt (self, w) (self', w')"
| step_run:
    "run_memory_task rt self task existing_memories user_id db w = (res, self', w')
     \<Longrightarrow> call_step rt (self, w) (self', w')"
| step_arun:
    "arun_memory_task rt self task existing_memories user_id db w = (res, self', w')
     \<Longrightarrow> call_step rt (self, w) (self', w')"

text \<open>Schema reflection that, where it succeeds, describes the callable it was given: the
  function carries the callable's name and runs the callable.\<close>

definition faithful_reflection :: "'w runtime \<Rightarrow> bool" where
  "faithful_reflection rt =
     (\<forall>t f. from_callable rt t = Inr f \<longrightarrow>
        func_name f = dunder_name t \<and> func_entrypoint f = call t)"

section \<open>Concrete inputs\<close>

text \<open>A world that counts the storage and UUID calls made on it; a backend whose calls all
  succeed and one whose calls all raise.\<close>

definition example_runtime :: "nat runtime" where
  "example_runtime =
     \<lparr>datetime_now = (\<lambda>w. (w, w)),
      uuid4_str = (\<lambda>w. (''uuid-'' @ replicate w CHR ''x'', Suc w)),
      from_callable = (\<lambda>c. Inr \<lparr>func_name = dunder_name c, func_strict = False,
                                  func_parameters = [], func_entrypoint = call c\<rparr>)\<rparr>"

definition counting_db :: "nat memory_db" where
  "counting_db =
     \<lparr>db_upsert_memory = (\<lambda>row w. (Inr (), Suc w)),
      db_delete_memory = (\<lambda>memory_id w. (Inr (), Suc w)),
      db_clear = (\<lambda>w. (Inr (), Suc w))\<rparr>"

definition failing_db :: "nat memory_db" where
  "failing_db =
     \<lparr>db_upsert_memory = (\<lambda>row w. (Inl (Exception ''disk full''), Suc w)),
      db_delete_memory = (\<lambda>memory_id w. (Inl (Exception ''disk full''), Suc w)),
      db_clear = (\<lambda>w. (Inl (Exception ''disk full''), Suc w))\<rparr>"

text \<open>A backend whose upsert is interrupted from the keyboard.\<close>

definition interrupted_db :: "nat memory_db" where
  "interrupted_db =
     \<lparr>db_upsert_memory = (\<lambda>row w. (Inl (BaseException ''KeyboardInterrupt''), Suc w)),
      db_delete_memory = (\<lambda>memory_id w. (Inr (), Suc w)),
      db_clear = (\<lambda>w. (Inr (), Suc w))\<rparr>"

text \<open>A model that answers with the content of the first message it is sent, one that
  answers with a fixed response, and managers holding them.\<close>

definition echo :: "tool_dict list option \<Rightarrow> (string \<times> nat func) list option \<Rightarrow>
    message list \<Rightarrow> nat \<Rightarrow> (exn + model_response) \<times> nat" where
  "echo tools functions messages w =
     (Inr \<lparr>resp_content = (case messages of [] \<Rightarrow> None | m # ms \<Rightarrow> content m),
           resp_tool_calls = None\<rparr>, w)"

definition echo_model :: "nat model" where
  "echo_model = \<lparr>model_tools = None, model_functions = None, response = echo, aresponse = echo\<rparr>"

definition canned_model :: "model_response \<Rightarrow> nat model" where
  "canned_model r =
     \<lparr>model_tools = None, model_functions = None,
      response = (\<lambda>tools functions messages w. (Inr r, w)),
      aresponse = (\<lambda>tools functions messages w. (Inr r, w))\<rparr>"

definition manager_of :: "nat model option \<Rightarrow> bool \<Rightarrow> nat memory_manager" where
  "manager_of m flag = \<lparr>model = m, system_prompt = None, memories_updated = flag\<rparr>"

definition hello :: message where
  "hello = \<lparr>role = ''user'', content = Some ''hello''\<rparr>"

definition tea_entry :: py_dict where
  "tea_entry = [''memory_id'' \<mapsto> ''m7'', ''memory'' \<mapsto> ''likes tea'']"

text \<open>A model that adds one memory and answers with what the tool told it.\<close>

definition add_then_report :: "tool_dict list option \<Rightarrow> message list \<Rightarrow> plan" where
  "add_then_report tools messages =
     Invoke (Call_add_memory ''likes tea'' None) (\<lambda>result. Respond (Some result))"

text \<open>A response that reports no tool call and one that reports one; a model that answers
  with the names of the functions set on it.\<close>

definition quiet_response :: model_response where
  "quiet_response = \<lparr>resp_content = Some ''nothing to do'', resp_tool_calls = Some []\<rparr>"

definition busy_response :: model_response where
  "busy_response =
     \<lparr>resp_content = Some ''saved'', resp_tool_calls = Some [Call_add_memory ''likes tea'' None]\<rparr>"

definition listing :: "tool_dict list option \<Rightarrow> (string \<times> nat func) list option \<Rightarrow>
    message list \<Rightarrow> nat \<Rightarrow> (exn + model_response) \<times> nat" where
  "listing tools functions messages w =
     (Inr \<lparr>resp_content =
             Some (join '', '' (case functions of None \<Rightarrow> [] | Some fs \<Rightarrow> map fst fs)),
           resp_tool_calls = None\<rparr>, w)"

definition listing_model :: "nat model" where
  "listing_model =
     \<lparr>model_tools = None, model_functions = None, response = listing, aresponse = listing\<rparr>"

section \<open>Verified properties\<close>

subsection \<open>The system prompt field\<close>

lemma get_system_message_ignores_prompt:
  "get_system_message (self\<lparr>system_prompt := p\<rparr>) es ms d c = get_system_message self es ms d c"
  by (simp add: get_system_message_def system_prompt_lines_def)

text \<open>
  Claim C10. The field \<^verbatim>\<open>system_prompt\<close> is stored by the constructor and read by no
  operation: for two managers that differ only in that field, \<^verbatim>\<open>get_system_message\<close> builds
  the same message, and each of the four entry points returns the same result and leaves
  the same world, having sent the model the same request; the managers they leave behind
  still differ only in that field. This holds for every model, backend and runtime.
\<close>

theorem system_prompt_never_read:
  "init None p = Inr \<lparr>model = None, system_prompt = p, memories_updated = False\<rparr> \<and>
   init (Some (ModelObject m)) p =
     Inr \<lparr>model = Some m, system_prompt = p, memories_updated = False\<rparr> \<and>
   get_system_message (self\<lparr>system_prompt := p\<rparr>) es ms d c = get_system_message self es ms d c \<and>
   create_or_update_memories rt (self\<lparr>system_prompt := p\<rparr>) messages existing_memories user_id db w =
     (case create_or_update_memories rt self messages existing_memories user_id db w of
        (res, self', w') \<Rightarrow> (res, self'\<lparr>system_prompt := p\<rparr>, w')) \<and>
   acreate_or_update_memories rt (self\<lparr>system_prompt := p\<rparr>) messages existing_memories user_id db w =
     (case acreate_or_update_memories rt self messages existing_memories user_id db w of
        (res, self', w') \<Rightarrow> (res, self'\<lparr>system_prompt := p\<rparr>, w')) \<and>
   run_memory_task rt (self\<lparr>system_prompt := p\<rparr>) task existing_memories user_id db w =
     (case run_memory_task rt self task existing_memories user_id db w of
        (res, self', w') \<Rightarrow> (res, self'\<lparr>system_prompt := p\<rparr>, w')) \<and>
   arun_memory_task rt (self\<lparr>system_prompt := p\<rparr>) task existing_memories user_id db w =
     (case arun_memory_task rt self task existing_memories user_id db w of
        (res, self', w') \<Rightarrow> (res, self'\<lparr>system_prompt := p\<rparr>, w'))"
proof (intro conjI)
  show "init None p = Inr \<lparr>model = None, system_prompt = p, memories_updated = False\<rparr>"
    by (simp add: init_def)
  show "init (Some (ModelObject m)) p =
     Inr \<lparr>model = Some m, system_prompt = p, memories_updated = False\<rparr>"
    by (simp add: init_def)
  show "get_system_message (self\<lparr>system_prompt := p\<rparr>) es ms d c = get_system_message self es ms d c"
    by (rule get_system_message_ignores_prompt)
  show "create_or_update_memories rt (self\<lparr>system_prompt := p\<rparr>) messages existing_memories user_id db w =
     (case create_or_update_memories rt self messages existing_memories user_id db w of
        (res, self', w') \<Rightarrow> (res, self'\<lparr>system_prompt := p\<rparr>, w'))"
    by (simp add: create_or_update_memories_def get_system_message_ignores_prompt Let_def
        split: option.splits sum.splits prod.splits)
  show "acreate_or_update_memories rt (self\<lparr>system_prompt := p\<rparr>) messages existing_memories user_id db w =
     (case acreate_or_update_memories rt self messages existing_memories user_id db w of
        (res, self', w') \<Rightarrow> (res, self'\<lparr>system_prompt := p\<rparr>, w'))"
    by (simp add: acreate_or_update_memories_def get_system_message_ignores_prompt Let_def
        split: option.splits sum.splits prod.splits)
  show "run_memory_task rt (self\<lparr>system_prompt := p\<rparr>) task existing_memories user_id db w =
     (case run_memory_task rt self task existing_memories user_id db w of
        (res, self', w') \<Rightarrow> (res, self'\<lparr>system_prompt := p\<rparr>, w'))"
    by (simp add: run_memory_task_def get_system_message_ignores_prompt Let_def
        split: option.splits sum.splits prod.splits)
  show "arun_memory_task rt (self\<lparr>system_prompt := p\<rparr>) task existing_memories user_id db w =
     (case arun_memory_task rt self task existing_memories user_id db w of
        (res, self', w') \<Rightarrow> (res, self'\<lparr>system_prompt := p\<rparr>, w'))"
    by (simp add: arun_memory_task_def get_system_message_ignores_prompt Let_def
        split: option.splits sum.splits prod.splits)
qed

subsection \<open>No model configured\<close>

text \<open>
  Claim C6. A manager whose model is \<^verbatim>\<open>None\<close> answers every one of the four entry points
  with the string \<^verbatim>\<open>No model provided for memory manager\<close>. The call raises nothing and
  leaves the manager and the world as they were, whatever the backend and the runtime are:
  no storage call and no inference call has been made.
\<close>

theorem no_model_sentinel:
  assumes "model self = None"
  shows "create_or_update_memories rt self messages existing_memories user_id db w =
           (Inr ''No model provided for memory manager'', self, w) \<and>
         acreate_or_update_memories rt self messages existing_memories user_id db w =
           (Inr ''No model provided for memory manager'', self, w) \<and>
         run_memory_task rt self task existing_memories user_id db w =
           (Inr ''No model provided for memory manager'', self, w) \<and>
         arun_memory_task rt self task existing_memories user_id db w =
           (Inr ''No model provided for memory manager'', self, w)"
  using assms
  by (simp add: create_or_update_memories_def acreate_or_update_memories_def
      run_memory_task_def arun_memory_task_def)

theorem no_model_sentinel_witness:
  "model (manager_of None True) = None \<and>
   create_or_update_memories example_runtime (manager_of None True) [hello] [tea_entry] ''u1''
       failing_db 0 =
     (Inr ''No model provided for memory manager'', manager_of None True, 0) \<and>
   acreate_or_update_memories example_runtime (manager_of None True) [hello] [tea_entry] ''u1''
       failing_db 0 =
     (Inr ''No model provided for memory manager'', manager_of None True, 0) \<and>
   run_memory_task example_runtime (manager_of None True) ''forget everything'' [tea_entry] ''u1''
       failing_db 0 =
     (Inr ''No model provided for memory manager'', manager_of None True, 0) \<and>
   arun_memory_task example_runtime (manager_of None True) ''forget everything'' [tea_entry] ''u1''
       failing_db 0 =
     (Inr ''No model provided for memory manager'', manager_of None True, 0)"
proof -
  have h: "model (manager_of None True) = None"
    by (simp add: manager_of_def)
  show ?thesis
    using h no_model_sentinel [OF h, of example_runtime "[hello]" "[tea_entry]" "''u1''" failing_db 0
        "''forget everything''"]
    by simp
qed

subsection \<open>Storage failures at the tool boundary\<close>

text \<open>
  Claim C2. The claim is that none of the four tools lets an exception of the backend pass.
  On a backend whose calls all raise, \<^verbatim>\<open>add_memory\<close>, \<^verbatim>\<open>update_memory\<close> and \<^verbatim>\<open>delete_memory\<close>
  return a string; \<^verbatim>\<open>clear_memory\<close>, which calls \<^verbatim>\<open>db.clear()\<close> outside any \<^verbatim>\<open>try\<close>, raises
  the backend's exception, both as the closure and as the fourth tool of \<^verbatim>\<open>_get_db_tools\<close>.
\<close>

theorem clear_memory_raises:
  "clear_memory failing_db 0 = (Inl (Exception ''disk full''), 1) \<and>
   map dunder_name (get_db_tools example_runtime ''u1'' failing_db ''hello'' True True True True) =
     [''add_memory'', ''update_memory'', ''delete_memory'', ''clear_memory''] \<and>
   call (get_db_tools example_runtime ''u1'' failing_db ''hello'' True True True True ! 3)
       Call_clear_memory 0 = (Inl (Exception ''disk full''), 1) \<and>
   call (get_db_tools example_runtime ''u1'' failing_db ''hello'' True True True True ! 0)
       (Call_add_memory ''likes tea'' None) 0 = (Inr ''Error adding memory: disk full'', 2) \<and>
   call (get_db_tools example_runtime ''u1'' failing_db ''hello'' True True True True ! 1)
       (Call_update_memory ''m7'' ''likes tea'' None) 0 = (Inr ''Error adding memory: disk full'', 1) \<and>
   call (get_db_tools example_runtime ''u1'' failing_db ''hello'' True True True True ! 2)
       (Call_delete_memory ''m7'') 0 = (Inr ''Error deleting memory: disk full'', 1)"
  by (simp add: get_db_tools_def add_memory_tool_def update_memory_tool_def delete_memory_tool_def
      clear_memory_tool_def add_memory_def update_memory_def delete_memory_def clear_memory_def
      failing_db_def example_runtime_def)

subsection \<open>The synthetic input string\<close>

lemma content_truthy_iff: "content_truthy m \<longleftrightarrow> get_content_string m \<noteq> []"
  by (simp add: content_truthy_def get_content_string_def split: option.splits)

lemma user_contents_filter:
  "map get_content_string (filter (\<lambda>m. role m = ''user'' \<and> content_truthy m) ms) =
   filter (\<lambda>s. s \<noteq> []) (map get_content_string (filter (\<lambda>m. role m = ''user'') ms))"
  by (induction ms) (simp_all add: content_truthy_iff)

lemma filter_all_truthy:
  "\<forall>m\<in>set ms. role m = ''user'' \<longrightarrow> content_truthy m \<Longrightarrow>
   filter (\<lambda>m. role m = ''user'' \<and> content_truthy m) ms = filter (\<lambda>m. role m = ''user'') ms"
  by (induction ms) auto

text \<open>
  Claim C4, as stated, fails. For two user messages, the second with empty content, the
  claim gives the bracketed list of both contents, \<^verbatim>\<open>[a, ]\<close>; the code, which keeps a user
  message only if its content is truthy, gives \<^verbatim>\<open>[a]\<close>.
\<close>

theorem input_string_counterexample:
  "input_string_of [\<lparr>role = ''user'', content = Some ''a''\<rparr>, \<lparr>role = ''user'', content = Some ''''\<rparr>]
     = ''[a]'' \<and>
   claimed_input_string
     [\<lparr>role = ''user'', content = Some ''a''\<rparr>, \<lparr>role = ''user'', content = Some ''''\<rparr>]
     = ''[a, ]''"
  by (simp add: input_string_of_def claimed_input_string_def get_content_string_def
      content_truthy_def)

text \<open>
  Claim C4, amended. A single message gives its content string verbatim. Any other number
  of messages gives \<^verbatim>\<open>[m1, ..., mk]\<close>, where \<^verbatim>\<open>m1..mk\<close> are the non-empty contents of the
  user-authored messages, comma-joined, in original order: a user message whose content is
  absent or empty contributes nothing. Where every user message has a non-empty content,
  this is the string the claim words.
\<close>

theorem input_string_nonempty_user_contents:
  "input_string_of messages =
     (if length messages = 1 then get_content_string (hd messages)
      else ''['' @
           join '', '' (filter (\<lambda>s. s \<noteq> [])
                          (map get_content_string (filter (\<lambda>m. role m = ''user'') messages))) @
           '']'') \<and>
   ((\<forall>m\<in>set messages. role m = ''user'' \<longrightarrow> content_truthy m) \<longrightarrow>
      input_string_of messages = claimed_input_string messages)"
proof (intro conjI impI)
  show "input_string_of messages =
     (if length messages = 1 then get_content_string (hd messages)
      else ''['' @
           join '', '' (filter (\<lambda>s. s \<noteq> [])
                          (map get_content_string (filter (\<lambda>m. role m = ''user'') messages))) @
           '']'')"
  proof (cases "length messages = 1")
    case True
    then have "messages ! 0 = hd messages"
      by (cases messages) simp_all
    with True show ?thesis
      by (simp add: input_string_of_def)
  next
    case False
    then show ?thesis
      by (simp add: input_string_of_def user_contents_filter)
  qed
next
  assume "\<forall>m\<in>set messages. role m = ''user'' \<longrightarrow> content_truthy m"
  then have same: "filter (\<lambda>m. role m = ''user'' \<and> content_truthy m) messages =
      filter (\<lambda>m. role m = ''user'') messages"
    by (rule filter_all_truthy)
  show "input_string_of messages = claimed_input_string messages"
  proof (cases "length messages = 1")
    case True
    then have "messages ! 0 = hd messages"
      by (cases messages) simp_all
    with True show ?thesis
      by (simp add: input_string_of_def claimed_input_string_def)
  next
    case False
    then show ?thesis
      by (simp add: input_string_of_def claimed_input_string_def same)
  qed
qed

theorem input_string_nonempty_user_contents_witness:
  "input_string_of [hello] = ''hello'' \<and>
   input_string_of
     [\<lparr>role = ''user'', content = Some ''a''\<rparr>, \<lparr>role = ''assistant'', content = Some ''b''\<rparr>,
      \<lparr>role = ''user'', content = None\<rparr>, \<lparr>role = ''user'', content = Some ''c''\<rparr>] = ''[a, c]'' \<and>
   role hello = ''user'' \<and> content_truthy hello \<and>
   input_string_of [hello, \<lparr>role = ''assistant'', content = None\<rparr>, hello] =
     claimed_input_string [hello, \<lparr>role = ''assistant'', content = None\<rparr>, hello]"
proof -
  have h: "\<forall>m\<in>set [hello, \<lparr>role = ''assistant'', content = None\<rparr>, hello].
       role m = ''user'' \<longrightarrow> content_truthy m"
    by (simp add: hello_def content_truthy_def)
  have a: "input_string_of [hello] = ''hello''"
    using input_string_nonempty_user_contents [of "[hello]"]
    by (simp add: hello_def get_content_string_def)
  have b: "input_string_of
     [\<lparr>role = ''user'', content = Some ''a''\<rparr>, \<lparr>role = ''assistant'', content = Some ''b''\<rparr>,
      \<lparr>role = ''user'', content = None\<rparr>, \<lparr>role = ''user'', content = Some ''c''\<rparr>] = ''[a, c]''"
    using input_string_nonempty_user_contents [of
        "[\<lparr>role = ''user'', content = Some ''a''\<rparr>, \<lparr>role = ''assistant'', content = Some ''b''\<rparr>,
          \<lparr>role = ''user'', content = None\<rparr>, \<lparr>role = ''user'', content = Some ''c''\<rparr>]"]
    by (simp add: get_content_string_def)
  have c: "input_string_of [hello, \<lparr>role = ''assistant'', content = None\<rparr>, hello] =
     claimed_input_string [hello, \<lparr>role = ''assistant'', content = None\<rparr>, hello]"
    using input_string_nonempty_user_contents [of
        "[hello, \<lparr>role = ''assistant'', content = None\<rparr>, hello]"] h
    by blast
  have d: "role hello = ''user'' \<and> content_truthy hello"
    by (simp add: hello_def content_truthy_def)
  from a b c d show ?thesis
    by blast
qed

subsection \<open>The rendered system message\<close>

lemma fixed_lines_no_newline:
  "CHR 0x0A \<notin> set task_line" "CHR 0x0A \<notin> set intro_line" "CHR 0x0A \<notin> set option_1"
  "CHR 0x0A \<notin> set option_2" "CHR 0x0A \<notin> set option_3" "CHR 0x0A \<notin> set option_4"
  "CHR 0x0A \<notin> set option_5" "CHR 0x0A \<notin> set multiple_line" "CHR 0x0A \<notin> set only_line"
  by (simp_all add: task_line_def intro_line_def option_1_def option_2_def option_3_def
      option_4_def option_5_def multiple_line_def only_line_def)

lemma fixed_lines_no_seven:
  "CHR ''7'' \<notin> set task_line" "CHR ''7'' \<notin> set intro_line" "CHR ''7'' \<notin> set option_1"
  "CHR ''7'' \<notin> set option_2" "CHR ''7'' \<notin> set option_3" "CHR ''7'' \<notin> set option_4"
  "CHR ''7'' \<notin> set option_5" "CHR ''7'' \<notin> set multiple_line" "CHR ''7'' \<notin> set only_line"
  by (simp_all add: task_line_def intro_line_def option_1_def option_2_def option_3_def
      option_4_def option_5_def multiple_line_def only_line_def)

lemma fixed_lines_no_underscore:
  "CHR ''_'' \<notin> set task_line" "CHR ''_'' \<notin> set intro_line" "CHR ''_'' \<notin> set option_1"
  "CHR ''_'' \<notin> set multiple_line" "CHR ''_'' \<notin> set only_line"
  by (simp_all add: task_line_def intro_line_def option_1_def multiple_line_def only_line_def)

lemma split_lines_nonempty: "split_lines xs \<noteq> []"
  by (induction xs) (auto split: list.splits)

lemma split_lines_append_newline:
  "split_lines (xs @ CHR 0x0A # ys) = split_lines xs @ split_lines ys"
  by (induction xs) (auto simp: split_lines_nonempty split: list.splits)

lemma split_lines_single: "CHR 0x0A \<notin> set xs \<Longrightarrow> split_lines xs = [xs]"
  by (induction xs) auto

lemma join_Cons: "ys \<noteq> [] \<Longrightarrow> join sep (x # ys) = x @ sep @ join sep ys"
  by (cases ys) simp_all

lemma join_append:
  "xs \<noteq> [] \<Longrightarrow> ys \<noteq> [] \<Longrightarrow> join sep (xs @ ys) = join sep xs @ sep @ join sep ys"
  by (induction sep xs rule: join.induct) (simp_all add: join_Cons)

lemma collect_user_messages_filter:
  "collect_user_messages acc ms =
     acc @ map get_content_string (filter (\<lambda>m. role m = ''user'') ms)"
  by (induction ms arbitrary: acc) simp_all

lemma append_existing_memories_spec:
  "append_existing_memories acc es =
     (case missing_key es of
        Some k \<Rightarrow> Inl (KeyError k)
      | None \<Rightarrow>
          Inr (acc @ concat (map (\<lambda>e. [''ID: '' @ the (e ''memory_id''),
                                        ''Memory: '' @ the (e ''memory''), ''\<newline>'']) es)))"
  by (induction es arbitrary: acc) (auto simp: subscript_def split: option.splits)

lemma system_prompt_lines_spec:
  "system_prompt_lines self es ms d c =
     (case entries_section es of
        Inl e \<Rightarrow> Inl e
      | Inr entries \<Rightarrow>
          Inr ([task_line, intro_line, option_1, option_2, option_3] @
               (if d then [option_4] else []) @ (if c then [option_5] else []) @
               [multiple_line, only_line] @ dialogue_section ms @ entries))"
  by (simp add: system_prompt_lines_def entries_section_def dialogue_section_def Let_def
      collect_user_messages_filter append_existing_memories_spec split: option.splits)

text \<open>
  Claim C9. For every input, the message built with delete and clear disabled is exactly the
  task, the introduction, options 1 to 3 and the two closing sentences, followed by the
  embedded dialogue and the embedded entries and by nothing else; the message built with
  both enabled is the same but for option 4 (delete) and option 5 (clear), which stand right
  after option 3 (update), which follows option 2 (add). None of the seven lines of the
  first names the \<^verbatim>\<open>delete_memory\<close> or the \<^verbatim>\<open>clear_memory\<close> tool. (The task sentence, shared by
  both, speaks of deleting memories in general; what the flags govern is the numbered
  options.) Where an entry lacks a key, the rendering raises under both settings.
\<close>

theorem options_follow_flags:
  "get_system_message self es ms False False =
     (case entries_section es of
        Inl e \<Rightarrow> Inl e
      | Inr entries \<Rightarrow>
          Inr \<lparr>role = ''system'',
               content = Some (join ''\<newline>''
                 ([task_line, intro_line, option_1, option_2, option_3,
                   multiple_line, only_line] @ dialogue_section ms @ entries))\<rparr>) \<and>
   get_system_message self es ms True True =
     (case entries_section es of
        Inl e \<Rightarrow> Inl e
      | Inr entries \<Rightarrow>
          Inr \<lparr>role = ''system'',
               content = Some (join ''\<newline>''
                 ([task_line, intro_line, option_1, option_2, option_3, option_4, option_5,
                   multiple_line, only_line] @ dialogue_section ms @ entries))\<rparr>) \<and>
   list_all (\<lambda>l. \<not> sublist ''delete_memory'' l \<and> \<not> sublist ''clear_memory'' l)
     [task_line, intro_line, option_1, option_2, option_3, multiple_line, only_line] \<and>
   prefix ''  2. '' option_2 \<and> sublist ''add_memory'' option_2 \<and>
   prefix ''  3. '' option_3 \<and> sublist ''update_memory'' option_3 \<and>
   prefix ''  4. '' option_4 \<and> sublist ''delete_memory'' option_4 \<and>
   prefix ''  5. '' option_5 \<and> sublist ''clear_memory'' option_5"
proof (intro conjI)
  show "get_system_message self es ms False False =
     (case entries_section es of
        Inl e \<Rightarrow> Inl e
      | Inr entries \<Rightarrow>
          Inr \<lparr>role = ''system'',
               content = Some (join ''\<newline>''
                 ([task_line, intro_line, option_1, option_2, option_3,
                   multiple_line, only_line] @ dialogue_section ms @ entries))\<rparr>)"
    by (simp add: get_system_message_def system_prompt_lines_spec del: join.simps
        split: sum.splits)
  show "get_system_message self es ms True True =
     (case entries_section es of
        Inl e \<Rightarrow> Inl e
      | Inr entries \<Rightarrow>
          Inr \<lparr>role = ''system'',
               content = Some (join ''\<newline>''
                 ([task_line, intro_line, option_1, option_2, option_3, option_4, option_5,
                   multiple_line, only_line] @ dialogue_section ms @ entries))\<rparr>)"
    by (simp add: get_system_message_def system_prompt_lines_spec del: join.simps
        split: sum.splits)
  have "\<not> sublist ''delete_memory'' l \<and> \<not> sublist ''clear_memory'' l"
    if "CHR ''_'' \<notin> set l" for l
    using that by (auto dest!: set_mono_sublist)
  moreover have "\<not> sublist ''delete_memory'' option_2 \<and> \<not> sublist ''clear_memory'' option_2"
    by (simp add: option_2_def sublist_Cons_right)
  moreover have "\<not> sublist ''delete_memory'' option_3 \<and> \<not> sublist ''clear_memory'' option_3"
    by (simp add: option_3_def sublist_Cons_right)
  ultimately show "list_all (\<lambda>l. \<not> sublist ''delete_memory'' l \<and> \<not> sublist ''clear_memory'' l)
     [task_line, intro_line, option_1, option_2, option_3, multiple_line, only_line]"
    by (simp add: fixed_lines_no_underscore)
  show "prefix ''  2. '' option_2" by (simp add: option_2_def)
  show "sublist ''add_memory'' option_2" by (simp add: option_2_def sublist_Cons_right)
  show "prefix ''  3. '' option_3" by (simp add: option_3_def)
  show "sublist ''update_memory'' option_3" by (simp add: option_3_def sublist_Cons_right)
  show "prefix ''  4. '' option_4" by (simp add: option_4_def)
  show "sublist ''delete_memory'' option_4" by (simp add: option_4_def sublist_Cons_right)
  show "prefix ''  5. '' option_5" by (simp add: option_5_def)
  show "sublist ''clear_memory'' option_5" by (simp add: option_5_def sublist_Cons_right)
qed

subsection \<open>Existing memories in the system message\<close>

lemma append_existing_memories_keys:
  "list_all has_keys es \<Longrightarrow>
   append_existing_memories acc es =
     Inr (acc @ concat (map (\<lambda>e. [''ID: '' @ the (e ''memory_id''),
                                     ''Memory: '' @ the (e ''memory''), ''\<newline>'']) es))"
  by (induction es arbitrary: acc) (auto simp: has_keys_def subscript_def)

lemma join_entries:
  "list_all has_keys es \<Longrightarrow>
   join ''\<newline>'' (concat (map (\<lambda>e. [''ID: '' @ the (e ''memory_id''),
                                     ''Memory: '' @ the (e ''memory''), ''\<newline>'']) es) @ [close]) =
   concat (map entry_text es) @ close"
  by (induction es) (auto simp: has_keys_def entry_text_def join_Cons)

text \<open>
  Claim C3, as stated, fails. For the single entry with identifier \<^verbatim>\<open>m7\<close> and text
  \<^verbatim>\<open>likes tea\<close> the rendered instruction has the lines listed below: the identifier stands
  on one line and the text on the next, and no line carries both.
\<close>

theorem entry_line_counterexample:
  "split_lines (rendered (get_system_message (manager_of None False) (Some [tea_entry]) None
       True True)) =
     [task_line, intro_line, option_1, option_2, option_3, option_4, option_5, multiple_line,
      only_line, ''<existing_memories>'', ''ID: m7'', ''Memory: likes tea'', [], [],
      ''</existing_memories>''] \<and>
   filter (line_carries ''m7'' ''likes tea'')
     (split_lines (rendered (get_system_message (manager_of None False) (Some [tea_entry]) None
        True True))) = []"
proof -
  have rend: "rendered (get_system_message (manager_of None False) (Some [tea_entry]) None
       True True) =
     join ''\<newline>'' [task_line, intro_line, option_1, option_2, option_3, option_4, option_5,
       multiple_line, only_line, ''<existing_memories>'', ''ID: m7'', ''Memory: likes tea'',
       ''\<newline>'', ''</existing_memories>'']"
    by (simp add: rendered_def get_system_message_def system_prompt_lines_def tea_entry_def
        subscript_def get_content_string_def del: join.simps)
  have lines: "split_lines (join ''\<newline>'' [task_line, intro_line, option_1, option_2, option_3,
       option_4, option_5, multiple_line, only_line, ''<existing_memories>'', ''ID: m7'',
       ''Memory: likes tea'', ''\<newline>'', ''</existing_memories>'']) =
     [task_line, intro_line, option_1, option_2, option_3, option_4, option_5, multiple_line,
      only_line, ''<existing_memories>'', ''ID: m7'', ''Memory: likes tea'', [], [],
      ''</existing_memories>'']"
    by (simp add: split_lines_append_newline split_lines_single fixed_lines_no_newline)
  have fixed: "\<not> line_carries ''m7'' t l" if "CHR ''7'' \<notin> set l" for t l
    using that by (auto simp: line_carries_def dest!: set_mono_sublist)
  have "filter (line_carries ''m7'' ''likes tea'')
     [task_line, intro_line, option_1, option_2, option_3, option_4, option_5, multiple_line,
      only_line, ''<existing_memories>'', ''ID: m7'', ''Memory: likes tea'', [], [],
      ''</existing_memories>''] = []"
    by (simp add: fixed fixed_lines_no_seven) (simp add: line_carries_def sublist_Cons_right)
  with rend lines show ?thesis
    by simp
qed

text \<open>
  Claim C3, amended. For every non-empty list of existing entries that have both keys, the
  rendered instruction is the instruction without entries followed by the section
  \<^verbatim>\<open><existing_memories>\<close>, in which every entry, in input order, is rendered as two
  consecutive lines, \<^verbatim>\<open>ID: \<close> with its identifier and \<^verbatim>\<open>Memory: \<close> with its text, followed by
  two empty lines.
\<close>

theorem entries_rendered_in_order:
  assumes "es \<noteq> []" and "list_all has_keys es"
  shows "\<exists>pre.
     get_system_message self None ms d c = Inr \<lparr>role = ''system'', content = Some pre\<rparr> \<and>
     get_system_message self (Some es) ms d c =
       Inr \<lparr>role = ''system'',
            content = Some (pre @ ''\<newline><existing_memories>\<newline>'' @
                            concat (map entry_text es) @ ''</existing_memories>'')\<rparr>"
proof -
  obtain l4 where none: "system_prompt_lines self None ms d c = Inr l4"
    and ne: "l4 \<noteq> []"
    and some: "system_prompt_lines self (Some es) ms d c =
      (case append_existing_memories (l4 @ [''<existing_memories>'']) es of
         Inl e \<Rightarrow> Inl e
       | Inr l5 \<Rightarrow> Inr (l5 @ [''</existing_memories>'']))"
    using assms(1) by (simp add: system_prompt_lines_def Let_def split: option.splits)
  let ?entries = "concat (map (\<lambda>e. [''ID: '' @ the (e ''memory_id''),
                                     ''Memory: '' @ the (e ''memory''), ''\<newline>'']) es)"
  have "system_prompt_lines self (Some es) ms d c =
      Inr (l4 @ ''<existing_memories>'' # (?entries @ [''</existing_memories>'']))"
    by (simp add: some append_existing_memories_keys [OF assms(2)])
  moreover have "join ''\<newline>'' (l4 @ ''<existing_memories>'' # (?entries @ [''</existing_memories>''])) =
      join ''\<newline>'' l4 @ ''\<newline><existing_memories>\<newline>'' @
        concat (map entry_text es) @ ''</existing_memories>''"
  proof -
    have a: "join ''\<newline>'' (l4 @ ''<existing_memories>'' # (?entries @ [''</existing_memories>''])) =
        join ''\<newline>'' l4 @ ''\<newline>'' @
          join ''\<newline>'' (''<existing_memories>'' # (?entries @ [''</existing_memories>'']))"
      by (rule join_append [OF ne]) simp
    have b: "join ''\<newline>'' (''<existing_memories>'' # (?entries @ [''</existing_memories>''])) =
        ''<existing_memories>'' @ ''\<newline>'' @ join ''\<newline>'' (?entries @ [''</existing_memories>''])"
      by (rule join_Cons) simp
    have c: "join ''\<newline>'' (?entries @ [''</existing_memories>'']) =
        concat (map entry_text es) @ ''</existing_memories>''"
      by (rule join_entries [OF assms(2)])
    show ?thesis
      unfolding a b c by simp
  qed
  ultimately show ?thesis
    using none by (simp add: get_system_message_def)
qed

theorem entries_rendered_in_order_witness:
  "[tea_entry, tea_entry(''memory'' \<mapsto> ''has a cat'')] \<noteq> [] \<and>
   list_all has_keys [tea_entry, tea_entry(''memory'' \<mapsto> ''has a cat'')] \<and>
   rendered (get_system_message (manager_of None False)
       (Some [tea_entry, tea_entry(''memory'' \<mapsto> ''has a cat'')]) None False False) =
     rendered (get_system_message (manager_of None False) None None False False) @
     ''\<newline><existing_memories>\<newline>'' @
     ''ID: m7\<newline>Memory: likes tea\<newline>\<newline>\<newline>'' @
     ''ID: m7\<newline>Memory: has a cat\<newline>\<newline>\<newline>'' @
     ''</existing_memories>''"
proof -
  have h1: "[tea_entry, tea_entry(''memory'' \<mapsto> ''has a cat'')] \<noteq> []"
    by simp
  have h2: "list_all has_keys [tea_entry, tea_entry(''memory'' \<mapsto> ''has a cat'')]"
    by (simp add: has_keys_def tea_entry_def)
  have texts: "concat (map entry_text [tea_entry, tea_entry(''memory'' \<mapsto> ''has a cat'')]) =
     ''ID: m7\<newline>Memory: likes tea\<newline>\<newline>\<newline>'' @
     ''ID: m7\<newline>Memory: has a cat\<newline>\<newline>\<newline>''"
    by (simp add: entry_text_def tea_entry_def)
  from entries_rendered_in_order [OF h1 h2, of "manager_of None False" None False False]
  show ?thesis
    using h1 h2 texts by (auto simp: rendered_def get_content_string_def)
qed

subsection \<open>Registering the tools with the example runtime\<close>

lemma get_db_tools_all:
  "get_db_tools rt user_id db input_string True True True True =
     [add_memory_tool rt user_id db input_string, update_memory_tool rt user_id db input_string,
      delete_memory_tool db, clear_memory_tool db]"
  by (simp add: get_db_tools_def)

lemma get_db_tools_add_update:
  "get_db_tools rt user_id db input_string True True False False =
     [add_memory_tool rt user_id db input_string, update_memory_tool rt user_id db input_string]"
  by (simp add: get_db_tools_def)

lemma tool_names:
  "dunder_name (add_memory_tool rt user_id db input_string) = ''add_memory''"
  "dunder_name (update_memory_tool rt user_id db input_string) = ''update_memory''"
  "dunder_name (delete_memory_tool db) = ''delete_memory''"
  "dunder_name (clear_memory_tool db) = ''clear_memory''"
  by (simp_all add: add_memory_tool_def update_memory_tool_def delete_memory_tool_def
      clear_memory_tool_def)

lemma from_callable_example:
  "from_callable example_runtime c =
     Inr \<lparr>func_name = dunder_name c, func_strict = False, func_parameters = [],
          func_entrypoint = call c\<rparr>"
  by (simp add: example_runtime_def)

lemma add_tools_to_model_example_two:
  "add_tools_to_model example_runtime m
     (get_db_tools example_runtime user_id db input_string True True False False) =
   Inr (m\<lparr>model_tools := Some
          [\<lparr>tool_type = ''function'', tool_function =
              \<lparr>fd_name = ''add_memory'', fd_strict = True, fd_parameters = []\<rparr>\<rparr>,
           \<lparr>tool_type = ''function'', tool_function =
              \<lparr>fd_name = ''update_memory'', fd_strict = True, fd_parameters = []\<rparr>\<rparr>],
        model_functions := Some
          [(''add_memory'', \<lparr>func_name = ''add_memory'', func_strict = True, func_parameters = [],
              func_entrypoint = call (add_memory_tool example_runtime user_id db input_string)\<rparr>),
           (''update_memory'', \<lparr>func_name = ''update_memory'', func_strict = True,
              func_parameters = [],
              func_entrypoint = call (update_memory_tool example_runtime user_id db input_string)\<rparr>)]\<rparr>)"
  by (simp add: add_tools_to_model_def reset_tools_and_functions_def set_tools_def
      set_functions_def get_db_tools_add_update tool_names from_callable_example to_dict_def
      Let_def)

lemma add_tools_to_model_example_four:
  "add_tools_to_model example_runtime m
     (get_db_tools example_runtime user_id db input_string True True True True) =
   Inr (m\<lparr>model_tools := Some
          [\<lparr>tool_type = ''function'', tool_function =
              \<lparr>fd_name = ''add_memory'', fd_strict = True, fd_parameters = []\<rparr>\<rparr>,
           \<lparr>tool_type = ''function'', tool_function =
              \<lparr>fd_name = ''update_memory'', fd_strict = True, fd_parameters = []\<rparr>\<rparr>,
           \<lparr>tool_type = ''function'', tool_function =
              \<lparr>fd_name = ''delete_memory'', fd_strict = True, fd_parameters = []\<rparr>\<rparr>,
           \<lparr>tool_type = ''function'', tool_function =
              \<lparr>fd_name = ''clear_memory'', fd_strict = True, fd_parameters = []\<rparr>\<rparr>],
        model_functions := Some
          [(''add_memory'', \<lparr>func_name = ''add_memory'', func_strict = True, func_parameters = [],
              func_entrypoint = call (add_memory_tool example_runtime user_id db input_string)\<rparr>),
           (''update_memory'', \<lparr>func_name = ''update_memory'', func_strict = True,
              func_parameters = [],
              func_entrypoint = call (update_memory_tool example_runtime user_id db input_string)\<rparr>),
           (''delete_memory'', \<lparr>func_name = ''delete_memory'', func_strict = True,
              func_parameters = [], func_entrypoint = call (delete_memory_tool db)\<rparr>),
           (''clear_memory'', \<lparr>func_name = ''clear_memory'', func_strict = True,
              func_parameters = [], func_entrypoint = call (clear_memory_tool db)\<rparr>)]\<rparr>)"
  by (simp add: add_tools_to_model_def reset_tools_and_functions_def set_tools_def
      set_functions_def get_db_tools_all tool_names from_callable_example to_dict_def Let_def)

subsection \<open>The sync and the async dialogue entry point\<close>

text \<open>
  Claim C1. The claim is that \<^verbatim>\<open>acreate_or_update_memories\<close> runs as
  \<^verbatim>\<open>create_or_update_memories\<close> does and that both build the system instruction with delete
  and clear disabled. With a model that answers with the system message it was sent (the
  same answer for \<^verbatim>\<open>response\<close> and \<^verbatim>\<open>aresponse\<close>), the two calls on the same input return
  different texts: the sync one was sent options 1 to 3, the async one, which calls
  \<^verbatim>\<open>get_system_message\<close> without the two flags, was sent options 4 (delete) and 5 (clear)
  as well.
\<close>

theorem async_instruction_offers_delete_and_clear:
  "fst (create_or_update_memories example_runtime (manager_of (Some echo_model) False) [hello] []
          ''u1'' counting_db 0) =
     Inr (join ''\<newline>'' [task_line, intro_line, option_1, option_2, option_3,
            multiple_line, only_line, ''\<newline><user_messages>'', ''hello'', ''</user_messages>'']) \<and>
   fst (acreate_or_update_memories example_runtime (manager_of (Some echo_model) False) [hello] []
          ''u1'' counting_db 0) =
     Inr (join ''\<newline>'' [task_line, intro_line, option_1, option_2, option_3, option_4, option_5,
            multiple_line, only_line, ''\<newline><user_messages>'', ''hello'', ''</user_messages>'']) \<and>
   fst (create_or_update_memories example_runtime (manager_of (Some echo_model) False) [hello] []
          ''u1'' counting_db 0) \<noteq>
   fst (acreate_or_update_memories example_runtime (manager_of (Some echo_model) False) [hello] []
          ''u1'' counting_db 0)"
proof -
  have sync: "fst (create_or_update_memories example_runtime (manager_of (Some echo_model) False)
          [hello] [] ''u1'' counting_db 0) =
     Inr (join ''\<newline>'' [task_line, intro_line, option_1, option_2, option_3,
            multiple_line, only_line, ''\<newline><user_messages>'', ''hello'', ''</user_messages>''])"
    by (simp add: create_or_update_memories_def manager_of_def echo_model_def echo_def
        add_tools_to_model_example_two deepcopy_def get_system_message_def system_prompt_lines_def hello_def
        get_content_string_def content_or_default_def reports_tool_calls_def Let_def
        split: prod.splits)
  have async: "fst (acreate_or_update_memories example_runtime (manager_of (Some echo_model) False)
          [hello] [] ''u1'' counting_db 0) =
     Inr (join ''\<newline>'' [task_line, intro_line, option_1, option_2, option_3, option_4, option_5,
            multiple_line, only_line, ''\<newline><user_messages>'', ''hello'', ''</user_messages>''])"
    by (simp add: acreate_or_update_memories_def manager_of_def echo_model_def echo_def
        add_tools_to_model_example_two deepcopy_def get_system_message_def system_prompt_lines_def hello_def
        get_content_string_def content_or_default_def reports_tool_calls_def Let_def
        split: prod.splits)
  have "multiple_line @ xs \<noteq> option_4 @ ys" for xs ys
    by (simp add: multiple_line_def option_4_def)
  then have differ: "join ''\<newline>'' [task_line, intro_line, option_1, option_2, option_3,
            multiple_line, only_line, ''\<newline><user_messages>'', ''hello'', ''</user_messages>''] \<noteq>
     join ''\<newline>'' [task_line, intro_line, option_1, option_2, option_3, option_4, option_5,
            multiple_line, only_line, ''\<newline><user_messages>'', ''hello'', ''</user_messages>'']"
    by simp
  show ?thesis
    unfolding sync async using differ by simp
qed

subsection \<open>The flag memories_updated\<close>

lemma add_tools_to_model_keeps_inference:
  "add_tools_to_model rt m tools = Inr m' \<Longrightarrow> response m' = response m \<and> aresponse m' = aresponse m"
  by (auto simp: add_tools_to_model_def reset_tools_and_functions_def set_tools_def
      set_functions_def split: sum.splits prod.splits)

lemma flag_update:
  "(if b then self\<lparr>memories_updated := True\<rparr> else self) =
   self\<lparr>memories_updated := memories_updated self \<or> b\<rparr>"
  by simp

lemma create_or_update_memories_follows:
  "model self = Some m \<Longrightarrow>
   add_tools_to_model rt (deepcopy m) (get_db_tools rt user_id db (input_string_of messages) True True False False) = Inr copy_d \<Longrightarrow>
   get_system_message self (Some existing_memories) (Some messages) False False = Inr sys_c \<Longrightarrow>
   follows_response self
     (response copy_d (model_tools copy_d) (model_functions copy_d)
        [sys_c, \<lparr>role = ''user'', content = Some ''Create or update memories based on the user's messages.''\<rparr>] w)
     (create_or_update_memories rt self messages existing_memories user_id db w)"
  by (simp add: create_or_update_memories_def follows_response_def flag_update Let_def
      split: prod.splits sum.splits)

lemma create_or_update_memories_untouched:
  "model self = Some m \<Longrightarrow>
   isl (add_tools_to_model rt (deepcopy m) (get_db_tools rt user_id db (input_string_of messages) True True False False)) \<or>
   isl (get_system_message self (Some existing_memories) (Some messages) False False) \<Longrightarrow>
   fst (snd (create_or_update_memories rt self messages existing_memories user_id db w)) = self"
  by (auto simp: create_or_update_memories_def Let_def isl_def split: prod.splits sum.splits)

lemma create_or_update_memories_keeps_flag:
  "memories_updated self \<Longrightarrow> memories_updated (fst (snd (create_or_update_memories rt self messages existing_memories user_id db w)))"
  by (auto simp: create_or_update_memories_def Let_def split: option.splits prod.splits sum.splits)

lemma acreate_or_update_memories_follows:
  "model self = Some m \<Longrightarrow>
   add_tools_to_model rt (deepcopy m) (get_db_tools rt user_id db (input_string_of messages) True True False False) = Inr copy_d \<Longrightarrow>
   get_system_message self (Some existing_memories) (Some messages) True True = Inr sys_a \<Longrightarrow>
   follows_response self
     (aresponse copy_d (model_tools copy_d) (model_functions copy_d)
        [sys_a, \<lparr>role = ''user'', content = Some ''Create or update memories based on the user's messages.''\<rparr>] w)
     (acreate_or_update_memories rt self messages existing_memories user_id db w)"
  by (simp add: acreate_or_update_memories_def follows_response_def flag_update Let_def
      split: prod.splits sum.splits)

lemma acreate_or_update_memories_untouched:
  "model self = Some m \<Longrightarrow>
   isl (add_tools_to_model rt (deepcopy m) (get_db_tools rt user_id db (input_string_of messages) True True False False)) \<or>
   isl (get_system_message self (Some existing_memories) (Some messages) True True) \<Longrightarrow>
   fst (snd (acreate_or_update_memories rt self messages existing_memories user_id db w)) = self"
  by (auto simp: acreate_or_update_memories_def Let_def isl_def split: prod.splits sum.splits)

lemma acreate_or_update_memories_keeps_flag:
  "memories_updated self \<Longrightarrow> memories_updated (fst (snd (acreate_or_update_memories rt self messages existing_memories user_id db w)))"
  by (auto simp: acreate_or_update_memories_def Let_def split: option.splits prod.splits sum.splits)

lemma run_memory_task_follows:
  "model self = Some m \<Longrightarrow>
   add_tools_to_model rt (deepcopy m) (get_db_tools rt user_id db task True True True True) = Inr copy_t \<Longrightarrow>
   get_system_message self (Some existing_memories) None True True = Inr sys_t \<Longrightarrow>
   follows_response self
     (response copy_t (model_tools copy_t) (model_functions copy_t)
        [sys_t, \<lparr>role = ''user'', content = Some task\<rparr>] w)
     (run_memory_task rt self task existing_memories user_id db w)"
  by (simp add: run_memory_task_def follows_response_def flag_update Let_def
      split: prod.splits sum.splits)

lemma run_memory_task_untouched:
  "model self = Some m \<Longrightarrow>
   isl (add_tools_to_model rt (deepcopy m) (get_db_tools rt user_id db task True True True True)) \<or>
   isl (get_system_message self (Some existing_memories) None True True) \<Longrightarrow>
   fst (snd (run_memory_task rt self task existing_memories user_id db w)) = self"
  by (auto simp: run_memory_task_def Let_def isl_def split: prod.splits sum.splits)

lemma run_memory_task_keeps_flag:
  "memories_updated self \<Longrightarrow> memories_updated (fst (snd (run_memory_task rt self task existing_memories user_id db w)))"
  by (auto simp: run_memory_task_def Let_def split: option.splits prod.splits sum.splits)

lemma arun_memory_task_follows:
  "model self = Some m \<Longrightarrow>
   add_tools_to_model rt (deepcopy m) (get_db_tools rt user_id db task True True True True) = Inr copy_t \<Longrightarrow>
   get_system_message self (Some existing_memories) None True True = Inr sys_t \<Longrightarrow>
   follows_response self
     (aresponse copy_t (model_tools copy_t) (model_functions copy_t)
        [sys_t, \<lparr>role = ''user'', content = Some task\<rparr>] w)
     (arun_memory_task rt self task existing_memories user_id db w)"
  by (simp add: arun_memory_task_def follows_response_def flag_update Let_def
      split: prod.splits sum.splits)

lemma arun_memory_task_untouched:
  "model self = Some m \<Longrightarrow>
   isl (add_tools_to_model rt (deepcopy m) (get_db_tools rt user_id db task True True True True)) \<or>
   isl (get_system_message self (Some existing_memories) None True True) \<Longrightarrow>
   fst (snd (arun_memory_task rt self task existing_memories user_id db w)) = self"
  by (auto simp: arun_memory_task_def Let_def isl_def split: prod.splits sum.splits)

lemma arun_memory_task_keeps_flag:
  "memories_updated self \<Longrightarrow> memories_updated (fst (snd (arun_memory_task rt self task existing_memories user_id db w)))"
  by (auto simp: arun_memory_task_def Let_def split: option.splits prod.splits sum.splits)

lemma call_step_keeps_flag:
  assumes "call_step rt (self, w) (self', w')" and "memories_updated self"
  shows "memories_updated self'"
  using assms(1)
proof (cases rule: call_step.cases)
  case (step_create messages existing_memories user_id db res)
  with create_or_update_memories_keeps_flag [OF assms(2), of rt messages existing_memories user_id db w]
  show ?thesis by simp
next
  case (step_acreate messages existing_memories user_id db res)
  with acreate_or_update_memories_keeps_flag [OF assms(2), of rt messages existing_memories user_id db w]
  show ?thesis by simp
next
  case (step_run task existing_memories user_id db res)
  with run_memory_task_keeps_flag [OF assms(2), of rt task existing_memories user_id db w]
  show ?thesis by simp
next
  case (step_arun task existing_memories user_id db res)
  with arun_memory_task_keeps_flag [OF assms(2), of rt task existing_memories user_id db w]
  show ?thesis by simp
qed

lemma call_steps_keep_flag:
  "(call_step rt)\<^sup>*\<^sup>* (self, w) (self', w') \<Longrightarrow> memories_updated self \<Longrightarrow>
   memories_updated self'"
  by (induction rule: rtranclp_induct2) (auto dest: call_step_keeps_flag)

text \<open>
  Claim C5. For each of the four entry points and every input: once the tools are registered
  on the copy of the model and the system message is built, the outcome of the call follows
  the answer of the one inference call it makes, on that copy, with these two messages, in
  this world. If the answer is a response, the result is its text and the flag
  \<^verbatim>\<open>memories_updated\<close> is true if the response reports one or more tool calls and keeps its
  prior value if it reports none (an absent or an empty list); if the inference call
  raises, the exception escapes and the manager is untouched. Where registering or building
  the message raises, the manager is untouched as well. No call resets the flag: along any
  sequence of calls of the entry points, once true it stays true.
\<close>

theorem memories_updated_follows_tool_calls:
  "(model self = Some m \<longrightarrow>
      add_tools_to_model rt (deepcopy m) (get_db_tools rt user_id db (input_string_of messages) True True False False) = Inr copy_d \<longrightarrow>
      get_system_message self (Some existing_memories) (Some messages) False False = Inr sys_c \<longrightarrow>
      follows_response self
        (response copy_d (model_tools copy_d) (model_functions copy_d)
           [sys_c, \<lparr>role = ''user'', content = Some ''Create or update memories based on the user's messages.''\<rparr>] w)
        (create_or_update_memories rt self messages existing_memories user_id db w)) \<and>
   (model self = Some m \<longrightarrow>
      add_tools_to_model rt (deepcopy m) (get_db_tools rt user_id db (input_string_of messages) True True False False) = Inr copy_d \<longrightarrow>
      get_system_message self (Some existing_memories) (Some messages) True True = Inr sys_a \<longrightarrow>
      follows_response self
        (aresponse copy_d (model_tools copy_d) (model_functions copy_d)
           [sys_a, \<lparr>role = ''user'', content = Some ''Create or update memories based on the user's messages.''\<rparr>] w)
        (acreate_or_update_memories rt self messages existing_memories user_id db w)) \<and>
   (model self = Some m \<longrightarrow>
      add_tools_to_model rt (deepcopy m) (get_db_tools rt user_id db task True True True True) = Inr copy_t \<longrightarrow>
      get_system_message self (Some existing_memories) None True True = Inr sys_t \<longrightarrow>
      follows_response self
        (response copy_t (model_tools copy_t) (model_functions copy_t)
           [sys_t, \<lparr>role = ''user'', content = Some task\<rparr>] w)
        (run_memory_task rt self task existing_memories user_id db w)) \<and>
   (model self = Some m \<longrightarrow>
      add_tools_to_model rt (deepcopy m) (get_db_tools rt user_id db task True True True True) = Inr copy_t \<longrightarrow>
      get_system_message self (Some existing_memories) None True True = Inr sys_t \<longrightarrow>
      follows_response self
        (aresponse copy_t (model_tools copy_t) (model_functions copy_t)
           [sys_t, \<lparr>role = ''user'', content = Some task\<rparr>] w)
        (arun_memory_task rt self task existing_memories user_id db w)) \<and>
   (model self = Some m \<longrightarrow>
      isl (add_tools_to_model rt (deepcopy m) (get_db_tools rt user_id db (input_string_of messages) True True False False)) \<or>
      isl (get_system_message self (Some existing_memories) (Some messages) False False) \<longrightarrow>
      fst (snd (create_or_update_memories rt self messages existing_memories user_id db w)) = self) \<and>
   (model self = Some m \<longrightarrow>
      isl (add_tools_to_model rt (deepcopy m) (get_db_tools rt user_id db (input_string_of messages) True True False False)) \<or>
      isl (get_system_message self (Some existing_memories) (Some messages) True True) \<longrightarrow>
      fst (snd (acreate_or_update_memories rt self messages existing_memories user_id db w)) = self) \<and>
   (model self = Some m \<longrightarrow>
      isl (add_tools_to_model rt (deepcopy m) (get_db_tools rt user_id db task True True True True)) \<or>
      isl (get_system_message self (Some existing_memories) None True True) \<longrightarrow>
      fst (snd (run_memory_task rt self task existing_memories user_id db w)) = self) \<and>
   (model self = Some m \<longrightarrow>
      isl (add_tools_to_model rt (deepcopy m) (get_db_tools rt user_id db task True True True True)) \<or>
      isl (get_system_message self (Some existing_memories) None True True) \<longrightarrow>
      fst (snd (arun_memory_task rt self task existing_memories user_id db w)) = self) \<and>
   ((call_step rt)\<^sup>*\<^sup>* (self, w) (self', w') \<longrightarrow> memories_updated self \<longrightarrow>
      memories_updated self')"
proof (intro conjI impI)
  show "memories_updated self'"
    if "(call_step rt)\<^sup>*\<^sup>* (self, w) (self', w')" and "memories_updated self"
    using that by (rule call_steps_keep_flag)
qed (erule (2) create_or_update_memories_follows acreate_or_update_memories_follows
      run_memory_task_follows arun_memory_task_follows
    | erule (1) create_or_update_memories_untouched acreate_or_update_memories_untouched
      run_memory_task_untouched arun_memory_task_untouched)+

theorem memories_updated_follows_tool_calls_witness:
  "model (manager_of (Some (canned_model busy_response)) False) =
     Some (canned_model busy_response) \<and>
   \<not> isl (add_tools_to_model example_runtime (deepcopy (canned_model busy_response))
            (get_db_tools example_runtime ''u1'' counting_db (input_string_of [hello])
               True True False False)) \<and>
   \<not> isl (get_system_message (manager_of (Some (canned_model busy_response)) False) (Some [])
            (Some [hello]) False False) \<and>
   create_or_update_memories example_runtime (manager_of (Some (canned_model busy_response)) False)
      [hello] [] ''u1'' counting_db 0 =
     (Inr ''saved'', manager_of (Some (canned_model busy_response)) True, 0) \<and>
   run_memory_task example_runtime (manager_of (Some (canned_model quiet_response)) True)
      ''nothing new'' [] ''u1'' counting_db 0 =
     (Inr ''nothing to do'', manager_of (Some (canned_model quiet_response)) True, 0) \<and>
   (call_step example_runtime)\<^sup>*\<^sup>*
      (manager_of (Some (canned_model quiet_response)) True, 0)
      (manager_of (Some (canned_model quiet_response)) True, 0) \<and>
   memories_updated (manager_of (Some (canned_model quiet_response)) True)"
proof -
  let ?busy = "manager_of (Some (canned_model busy_response)) False"
  let ?quiet = "manager_of (Some (canned_model quiet_response)) True"
  let ?user = "\<lparr>role = ''user'',
      content = Some ''Create or update memories based on the user's messages.''\<rparr>"
  have h1: "model ?busy = Some (canned_model busy_response)"
    by (simp add: manager_of_def)
  obtain copy where h2: "add_tools_to_model example_runtime (deepcopy (canned_model busy_response))
      (get_db_tools example_runtime ''u1'' counting_db (input_string_of [hello])
         True True False False) = Inr copy"
    by (simp add: add_tools_to_model_example_two)
  obtain sys where h3: "get_system_message ?busy (Some []) (Some [hello]) False False = Inr sys"
    by (simp add: get_system_message_def system_prompt_lines_def)
  from h2 have "response copy = response (canned_model busy_response)"
    by (simp add: add_tools_to_model_keeps_inference deepcopy_def)
  then have answer: "response copy (model_tools copy) (model_functions copy) [sys, ?user] 0 =
      (Inr busy_response, 0)"
    by (simp add: canned_model_def)
  from memories_updated_follows_tool_calls [where self = ?busy and m = "canned_model busy_response"
      and rt = example_runtime and user_id = "''u1''" and db = counting_db and messages = "[hello]"
      and existing_memories = "[]" and copy_d = copy and sys_c = sys and w = 0] h1 h2 h3
  have "follows_response ?busy
      (response copy (model_tools copy) (model_functions copy) [sys, ?user] 0)
      (create_or_update_memories example_runtime ?busy [hello] [] ''u1'' counting_db 0)"
    by blast
  then have busy: "create_or_update_memories example_runtime ?busy [hello] [] ''u1'' counting_db 0 =
     (Inr ''saved'', manager_of (Some (canned_model busy_response)) True, 0)"
    unfolding answer
    by (simp add: follows_response_def content_or_default_def reports_tool_calls_def
        busy_response_def manager_of_def)
  have quiet: "run_memory_task example_runtime ?quiet ''nothing new'' [] ''u1'' counting_db 0 =
     (Inr ''nothing to do'', ?quiet, 0)"
    by (simp add: run_memory_task_def manager_of_def canned_model_def quiet_response_def
        add_tools_to_model_example_four deepcopy_def get_system_message_def
        system_prompt_lines_def content_or_default_def reports_tool_calls_def)
  have steps: "(call_step example_runtime)\<^sup>*\<^sup>* (?quiet, 0) (?quiet, 0)"
    using step_run [OF quiet] by (rule r_into_rtranclp)
  have flag: "memories_updated ?quiet"
    by (simp add: manager_of_def)
  have kept: "memories_updated ?quiet"
    using memories_updated_follows_tool_calls [where self = ?quiet and rt = example_runtime
        and w = 0 and self' = ?quiet and w' = 0] steps flag
    by blast
  from h1 h2 h3 busy quiet steps kept show ?thesis
    by simp
qed

subsection \<open>Registering the tools on the model\<close>

lemma add_tools_to_model_replaces:
  "add_tools_to_model rt (m\<lparr>model_tools := ts, model_functions := fs\<rparr>) tools =
   add_tools_to_model rt m tools"
  by (simp add: add_tools_to_model_def reset_tools_and_functions_def set_tools_def
      set_functions_def split: sum.splits prod.splits)

text \<open>
  Claim C8. Where the schema of each of the four tools can be derived and names the function
  after the callable: registering the tools built with all four flags enabled (as the two
  task entry points do) sets exactly four tools and four functions on the model, in the
  order \<^verbatim>\<open>add_memory\<close>, \<^verbatim>\<open>update_memory\<close>, \<^verbatim>\<open>delete_memory\<close>, \<^verbatim>\<open>clear_memory\<close>; registering
  those built with delete and clear disabled (as the two dialogue entry points do) sets
  exactly \<^verbatim>\<open>add_memory\<close> and \<^verbatim>\<open>update_memory\<close>. A registration replaces whatever tools and
  functions the model instance held: its outcome does not depend on them.
\<close>

theorem registration_exposes_enabled_tools:
  assumes "\<forall>t\<in>set (get_db_tools rt user_id db input_string True True True True).
             \<exists>f. from_callable rt t = Inr f \<and> func_name f = dunder_name t"
  shows "(\<exists>copy. add_tools_to_model rt m
              (get_db_tools rt user_id db input_string True True True True) = Inr copy \<and>
            map_option (map (\<lambda>t. (tool_type t, fd_name (tool_function t)))) (model_tools copy) =
              Some [(''function'', ''add_memory''), (''function'', ''update_memory''),
                    (''function'', ''delete_memory''), (''function'', ''clear_memory'')] \<and>
            map_option (map (\<lambda>(k, f). (k, func_name f, func_strict f))) (model_functions copy) =
              Some [(''add_memory'', ''add_memory'', True),
                    (''update_memory'', ''update_memory'', True),
                    (''delete_memory'', ''delete_memory'', True),
                    (''clear_memory'', ''clear_memory'', True)]) \<and>
         (\<exists>copy. add_tools_to_model rt m
              (get_db_tools rt user_id db input_string True True False False) = Inr copy \<and>
            map_option (map (\<lambda>t. (tool_type t, fd_name (tool_function t)))) (model_tools copy) =
              Some [(''function'', ''add_memory''), (''function'', ''update_memory'')] \<and>
            map_option (map (\<lambda>(k, f). (k, func_name f, func_strict f))) (model_functions copy) =
              Some [(''add_memory'', ''add_memory'', True),
                    (''update_memory'', ''update_memory'', True)]) \<and>
         add_tools_to_model rt (m\<lparr>model_tools := previous_tools,
                                   model_functions := previous_functions\<rparr>) tools =
           add_tools_to_model rt m tools"
proof -
  from assms obtain fa fu fd fc where
    fa: "from_callable rt (add_memory_tool rt user_id db input_string) = Inr fa"
      "func_name fa = ''add_memory''" and
    fu: "from_callable rt (update_memory_tool rt user_id db input_string) = Inr fu"
      "func_name fu = ''update_memory''" and
    fd: "from_callable rt (delete_memory_tool db) = Inr fd" "func_name fd = ''delete_memory''" and
    fc: "from_callable rt (clear_memory_tool db) = Inr fc" "func_name fc = ''clear_memory''"
    unfolding get_db_tools_all by (auto simp: tool_names)
  show ?thesis
    by (simp add: add_tools_to_model_def reset_tools_and_functions_def set_tools_def
        set_functions_def add_tools_to_model_replaces get_db_tools_all get_db_tools_add_update
        tool_names fa fu fd fc to_dict_def Let_def)
qed

theorem registration_exposes_enabled_tools_witness:
  "list_all (\<lambda>t. \<exists>f. from_callable example_runtime t = Inr f \<and> func_name f = dunder_name t)
     (get_db_tools example_runtime ''u1'' counting_db ''hello'' True True True True) \<and>
   (\<exists>copy. add_tools_to_model example_runtime
       (listing_model\<lparr>model_tools := Some [\<lparr>tool_type = ''function'',
            tool_function = \<lparr>fd_name = ''search'', fd_strict = False, fd_parameters = []\<rparr>\<rparr>]\<rparr>)
       (get_db_tools example_runtime ''u1'' counting_db ''hello'' True True True True) = Inr copy \<and>
      map_option (map (\<lambda>t. (tool_type t, fd_name (tool_function t)))) (model_tools copy) =
        Some [(''function'', ''add_memory''), (''function'', ''update_memory''),
              (''function'', ''delete_memory''), (''function'', ''clear_memory'')]) \<and>
   fst (run_memory_task example_runtime (manager_of (Some listing_model) False) ''hello'' []
          ''u1'' counting_db 0) = Inr ''add_memory, update_memory, delete_memory, clear_memory'' \<and>
   fst (arun_memory_task example_runtime (manager_of (Some listing_model) False) ''hello'' []
          ''u1'' counting_db 0) = Inr ''add_memory, update_memory, delete_memory, clear_memory'' \<and>
   fst (create_or_update_memories example_runtime (manager_of (Some listing_model) False) [hello] []
          ''u1'' counting_db 0) = Inr ''add_memory, update_memory'' \<and>
   fst (acreate_or_update_memories example_runtime (manager_of (Some listing_model) False) [hello] []
          ''u1'' counting_db 0) = Inr ''add_memory, update_memory''"
proof -
  have h: "\<forall>t\<in>set (get_db_tools example_runtime ''u1'' counting_db ''hello'' True True True True).
      \<exists>f. from_callable example_runtime t = Inr f \<and> func_name f = dunder_name t"
    by (simp add: from_callable_example)
  from registration_exposes_enabled_tools [OF h, where m =
      "listing_model\<lparr>model_tools := Some [\<lparr>tool_type = ''function'',
            tool_function = \<lparr>fd_name = ''search'', fd_strict = False, fd_parameters = []\<rparr>\<rparr>]\<rparr>",
      THEN conjunct1]
  have r: "\<exists>copy. add_tools_to_model example_runtime
       (listing_model\<lparr>model_tools := Some [\<lparr>tool_type = ''function'',
            tool_function = \<lparr>fd_name = ''search'', fd_strict = False, fd_parameters = []\<rparr>\<rparr>]\<rparr>)
       (get_db_tools example_runtime ''u1'' counting_db ''hello'' True True True True) = Inr copy \<and>
      map_option (map (\<lambda>t. (tool_type t, fd_name (tool_function t)))) (model_tools copy) =
        Some [(''function'', ''add_memory''), (''function'', ''update_memory''),
              (''function'', ''delete_memory''), (''function'', ''clear_memory'')]"
    by (elim exE conjE) (rule exI, erule conjI, assumption)
  have run: "fst (run_memory_task example_runtime (manager_of (Some listing_model) False) ''hello''
        [] ''u1'' counting_db 0) = Inr ''add_memory, update_memory, delete_memory, clear_memory''"
    by (simp add: run_memory_task_def manager_of_def deepcopy_def add_tools_to_model_example_four
        get_system_message_def system_prompt_lines_def split: prod.splits)
      (simp add: listing_model_def listing_def content_or_default_def)
  have arun: "fst (arun_memory_task example_runtime (manager_of (Some listing_model) False) ''hello''
        [] ''u1'' counting_db 0) = Inr ''add_memory, update_memory, delete_memory, clear_memory''"
    by (simp add: arun_memory_task_def manager_of_def deepcopy_def add_tools_to_model_example_four
        get_system_message_def system_prompt_lines_def split: prod.splits)
      (simp add: listing_model_def listing_def content_or_default_def)
  have create: "fst (create_or_update_memories example_runtime (manager_of (Some listing_model) False)
        [hello] [] ''u1'' counting_db 0) = Inr ''add_memory, update_memory''"
    by (simp add: create_or_update_memories_def manager_of_def deepcopy_def
        add_tools_to_model_example_two get_system_message_def system_prompt_lines_def
        split: prod.splits)
      (simp add: listing_model_def listing_def content_or_default_def)
  have acreate: "fst (acreate_or_update_memories example_runtime (manager_of (Some listing_model) False)
        [hello] [] ''u1'' counting_db 0) = Inr ''add_memory, update_memory''"
    by (simp add: acreate_or_update_memories_def manager_of_def deepcopy_def
        add_tools_to_model_example_two get_system_message_def system_prompt_lines_def
        split: prod.splits)
      (simp add: listing_model_def listing_def content_or_default_def)
  from h have h': "list_all (\<lambda>t. \<exists>f. from_callable example_runtime t = Inr f \<and>
        func_name f = dunder_name t)
     (get_db_tools example_runtime ''u1'' counting_db ''hello'' True True True True)"
    by (simp add: list_all_iff)
  from h' r run arun create acreate show ?thesis
    by (intro conjI)
qed

subsection \<open>A failing upsert inside add_memory\<close>

lemma add_memory_reports:
  assumes "datetime_now rt w = (last_updated, w1)"
    and "uuid4_str rt w1 = (memory_id, w2)"
    and "db_upsert_memory db
       \<lparr>row_id = memory_id, row_user_id = user_id,
          row_memory = \<lparr>um_memory_id = memory_id, um_memory = memory, um_topics = topics,
                         um_last_updated = last_updated, um_input = input_string\<rparr>,
          row_last_updated = last_updated\<rparr> w2 = (Inl e, w3)"
    and "is_Exception e"
  shows "add_memory rt user_id db input_string memory topics w =
     (Inr (''Error adding memory: '' @ str_exn e), w3)"
  using assms by (simp add: add_memory_def)

lemma add_tools_loop_keeps:
  assumes "faithful_reflection rt"
  shows "add_tools_loop rt tools (ts, fs) = Inr (ts', fs') \<Longrightarrow> map_of fs n = Some g \<Longrightarrow>
     map_of fs' n = Some g"
proof (induction tools arbitrary: ts fs)
  case Nil
  then show ?case by simp
next
  case (Cons tool tools)
  from Cons.prems(2) have key: "n \<in> fst ` set fs"
    by (force dest: map_of_SomeD)
  show ?case
  proof (cases "dunder_name tool \<notin> fst ` set fs")
    case False
    with Cons.prems(1) have "add_tools_loop rt tools (ts, fs) = Inr (ts', fs')"
      by (simp add: Let_def)
    from Cons.IH [OF this Cons.prems(2)] show ?thesis .
  next
    case True
    show ?thesis
    proof (cases "from_callable rt tool")
      case (Inl e)
      with True Cons.prems(1) have "add_tools_loop rt tools (ts, fs) = Inr (ts', fs')"
        by (simp add: Let_def split: if_splits)
      from Cons.IH [OF this Cons.prems(2)] show ?thesis .
    next
      case (Inr func0)
      with assms have name: "func_name func0 = dunder_name tool"
        by (simp add: faithful_reflection_def)
      with True key have other: "func_name func0 \<noteq> n"
        by auto
      let ?func = "func0\<lparr>func_strict := True\<rparr>"
      from True Inr Cons.prems(1)
      have loop: "add_tools_loop rt tools
          (ts @ [\<lparr>tool_type = ''function'', tool_function = to_dict ?func\<rparr>],
           AList.update (func_name ?func) ?func fs) = Inr (ts', fs')"
        by (simp add: Let_def)
      from other Cons.prems(2) have "map_of (AList.update (func_name ?func) ?func fs) n = Some g"
        by (simp add: update_conv')
      from Cons.IH [OF loop this] show ?thesis .
    qed
  qed
qed

lemma registered_add_memory:
  assumes "faithful_reflection rt"
    and "from_callable rt (add_memory_tool rt user_id db input_string) = Inr f"
    and "add_tools_to_model rt m (add_memory_tool rt user_id db input_string # rest) = Inr copy"
  shows "\<exists>fs g. model_functions copy = Some fs \<and> map_of fs ''add_memory'' = Some g \<and>
     func_entrypoint g = call (add_memory_tool rt user_id db input_string)"
proof -
  let ?g = "f\<lparr>func_strict := True\<rparr>"
  from assms(1,2) have faithful: "func_name f = ''add_memory''"
      "func_entrypoint f = call (add_memory_tool rt user_id db input_string)"
    by (auto simp: faithful_reflection_def tool_names)
  from assms(3) obtain ts fs where loop:
      "add_tools_loop rt (add_memory_tool rt user_id db input_string # rest) ([], []) = Inr (ts, fs)"
    and copy: "model_functions copy = Some fs"
    by (auto simp: add_tools_to_model_def reset_tools_and_functions_def set_tools_def
        set_functions_def split: sum.splits prod.splits)
  from loop have "add_tools_loop rt rest
      ([\<lparr>tool_type = ''function'', tool_function = to_dict ?g\<rparr>], [(''add_memory'', ?g)]) =
      Inr (ts, fs)"
    by (simp add: assms(2) faithful Let_def)
  from add_tools_loop_keeps [OF assms(1) this, of "''add_memory''" ?g]
  have "map_of fs ''add_memory'' = Some ?g"
    by simp
  with copy faithful(2) show ?thesis
    by simp
qed

lemma run_plan_add_failure:
  assumes "datetime_now rt w = (last_updated, w1)"
    and "uuid4_str rt w1 = (memory_id, w2)"
    and "db_upsert_memory db
       \<lparr>row_id = memory_id, row_user_id = user_id,
          row_memory = \<lparr>um_memory_id = memory_id, um_memory = memory, um_topics = topics,
                         um_last_updated = last_updated, um_input = input_string\<rparr>,
          row_last_updated = last_updated\<rparr> w2 = (Inl e, w3)"
    and "is_Exception e"
    and "map_of fs ''add_memory'' = Some g"
    and "func_entrypoint g = call (add_memory_tool rt user_id db input_string)"
  shows "run_plan fs (Invoke (Call_add_memory memory topics) k) calls w =
     run_plan fs (k (''Error adding memory: '' @ str_exn e))
       (calls @ [Call_add_memory memory topics]) w3"
  using assms(5,6) add_memory_reports [OF assms(1-4)]
  by (simp add: add_memory_tool_def)

lemma scripted_model_fields:
  "response (scripted_model brain) = run_functions brain"
  "aresponse (scripted_model brain) = run_functions brain"
  by (simp_all add: scripted_model_def)

lemma create_or_update_memories_add_failure:
  assumes "datetime_now rt w = (last_updated, w1)"
    and "uuid4_str rt w1 = (memory_id, w2)"
    and "db_upsert_memory db
       \<lparr>row_id = memory_id, row_user_id = user_id,
          row_memory = \<lparr>um_memory_id = memory_id, um_memory = memory, um_topics = topics,
                         um_last_updated = last_updated, um_input = input_string\<rparr>,
          row_last_updated = last_updated\<rparr> w2 = (Inl e, w3)"
    and "is_Exception e"
    and "faithful_reflection rt"
    and "from_callable rt (add_memory_tool rt user_id db input_string) = Inr f"
    and "model self = Some (scripted_model brain)"
    and "input_string_of messages = input_string"
    and "add_tools_to_model rt (deepcopy (scripted_model brain))
        (get_db_tools rt user_id db input_string True True False False) = Inr copy_d"
    and "get_system_message self (Some existing_memories) (Some messages) False False = Inr sys_c"
    and "brain (model_tools copy_d)
        [sys_c, \<lparr>role = ''user'', content = Some ''Create or update memories based on the user's messages.''\<rparr>] =
        Invoke (Call_add_memory memory topics) k"
    and "k (''Error adding memory: '' @ str_exn e) = Respond c"
  shows "create_or_update_memories rt self messages existing_memories user_id db w =
        (Inr (content_or_default
               \<lparr>resp_content = c, resp_tool_calls = Some [Call_add_memory memory topics]\<rparr>),
         self\<lparr>memories_updated := True\<rparr>, w3)"
proof -
  from assms(9) have reg: "add_tools_to_model rt (scripted_model brain)
      (add_memory_tool rt user_id db input_string # tl (get_db_tools rt user_id db input_string True True False False)) =
      Inr copy_d"
    by (simp add: deepcopy_def get_db_tools_add_update)
  from registered_add_memory [OF assms(5) assms(6) reg]
  obtain fs g where fs: "model_functions copy_d = Some fs" "map_of fs ''add_memory'' = Some g"
      "func_entrypoint g = call (add_memory_tool rt user_id db input_string)"
    by blast
  from assms(9) have inference: "response copy_d = run_functions brain"
    by (simp add: deepcopy_def add_tools_to_model_keeps_inference scripted_model_fields)
  have "run_functions brain (model_tools copy_d) (model_functions copy_d)
      [sys_c, \<lparr>role = ''user'', content = Some ''Create or update memories based on the user's messages.''\<rparr>] w =
      run_plan fs (Invoke (Call_add_memory memory topics) k) [] w"
    by (simp only: run_functions_def fs(1) assms(11) option.case)
  also have "\<dots> = run_plan fs (k (''Error adding memory: '' @ str_exn e))
      ([] @ [Call_add_memory memory topics]) w3"
    by (rule run_plan_add_failure [OF assms(1-4) fs(2,3)])
  also have "\<dots> = run_plan fs (Respond c) [Call_add_memory memory topics] w3"
    by (simp only: assms(12) append_Nil)
  also have "\<dots> =
      (Inr \<lparr>resp_content = c, resp_tool_calls = Some [Call_add_memory memory topics]\<rparr>, w3)"
    by simp
  finally show ?thesis
    using assms(7) assms(8) assms(9) assms(10)
    by (simp add: create_or_update_memories_def Let_def inference reports_tool_calls_def)
qed

lemma acreate_or_update_memories_add_failure:
  assumes "datetime_now rt w = (last_updated, w1)"
    and "uuid4_str rt w1 = (memory_id, w2)"
    and "db_upsert_memory db
       \<lparr>row_id = memory_id, row_user_id = user_id,
          row_memory = \<lparr>um_memory_id = memory_id, um_memory = memory, um_topics = topics,
                         um_last_updated = last_updated, um_input = input_string\<rparr>,
          row_last_updated = last_updated\<rparr> w2 = (Inl e, w3)"
    and "is_Exception e"
    and "faithful_reflection rt"
    and "from_callable rt (add_memory_tool rt user_id db input_string) = Inr f"
    and "model self = Some (scripted_model brain)"
    and "input_string_of messages = input_string"
    and "add_tools_to_model rt (deepcopy (scripted_model brain))
        (get_db_tools rt user_id db input_string True True False False) = Inr copy_d"
    and "get_system_message self (Some existing_memories) (Some messages) True True = Inr sys_a"
    and "brain (model_tools copy_d)
        [sys_a, \<lparr>role = ''user'', content = Some ''Create or update memories based on the user's messages.''\<rparr>] =
        Invoke (Call_add_memory memory topics) k"
    and "k (''Error adding memory: '' @ str_exn e) = Respond c"
  shows "acreate_or_update_memories rt self messages existing_memories user_id db w =
        (Inr (content_or_default
               \<lparr>resp_content = c, resp_tool_calls = Some [Call_add_memory memory topics]\<rparr>),
         self\<lparr>memories_updated := True\<rparr>, w3)"
proof -
  from assms(9) have reg: "add_tools_to_model rt (scripted_model brain)
      (add_memory_tool rt user_id db input_string # tl (get_db_tools rt user_id db input_string True True False False)) =
      Inr copy_d"
    by (simp add: deepcopy_def get_db_tools_add_update)
  from registered_add_memory [OF assms(5) assms(6) reg]
  obtain fs g where fs: "model_functions copy_d = Some fs" "map_of fs ''add_memory'' = Some g"
      "func_entrypoint g = call (add_memory_tool rt user_id db input_string)"
    by blast
  from assms(9) have inference: "aresponse copy_d = run_functions brain"
    by (simp add: deepcopy_def add_tools_to_model_keeps_inference scripted_model_fields)
  have "run_functions brain (model_tools copy_d) (model_functions copy_d)
      [sys_a, \<lparr>role = ''user'', content = Some ''Create or update memories based on the user's messages.''\<rparr>] w =
      run_plan fs (Invoke (Call_add_memory memory topics) k) [] w"
    by (simp only: run_functions_def fs(1) assms(11) option.case)
  also have "\<dots> = run_plan fs (k (''Error adding memory: '' @ str_exn e))
      ([] @ [Call_add_memory memory topics]) w3"
    by (rule run_plan_add_failure [OF assms(1-4) fs(2,3)])
  also have "\<dots> = run_plan fs (Respond c) [Call_add_memory memory topics] w3"
    by (simp only: assms(12) append_Nil)
  also have "\<dots> =
      (Inr \<lparr>resp_content = c, resp_tool_calls = Some [Call_add_memory memory topics]\<rparr>, w3)"
    by simp
  finally show ?thesis
    using assms(7) assms(8) assms(9) assms(10)
    by (simp add: acreate_or_update_memories_def Let_def inference reports_tool_calls_def)
qed

lemma run_memory_task_add_failure:
  assumes "datetime_now rt w = (last_updated, w1)"
    and "uuid4_str rt w1 = (memory_id, w2)"
    and "db_upsert_memory db
       \<lparr>row_id = memory_id, row_user_id = user_id,
          row_memory = \<lparr>um_memory_id = memory_id, um_memory = memory, um_topics = topics,
                         um_last_updated = last_updated, um_input = input_string\<rparr>,
          row_last_updated = last_updated\<rparr> w2 = (Inl e, w3)"
    and "is_Exception e"
    and "faithful_reflection rt"
    and "from_callable rt (add_memory_tool rt user_id db input_string) = Inr f"
    and "model self = Some (scripted_model brain)"
    and "add_tools_to_model rt (deepcopy (scripted_model brain))
        (get_db_tools rt user_id db input_string True True True True) = Inr copy_t"
    and "get_system_message self (Some existing_memories) None True True = Inr sys_t"
    and "brain (model_tools copy_t)
        [sys_t, \<lparr>role = ''user'', content = Some input_string\<rparr>] =
        Invoke (Call_add_memory memory topics) k"
    and "k (''Error adding memory: '' @ str_exn e) = Respond c"
  shows "run_memory_task rt self input_string existing_memories user_id db w =
        (Inr (content_or_default
               \<lparr>resp_content = c, resp_tool_calls = Some [Call_add_memory memory topics]\<rparr>),
         self\<lparr>memories_updated := True\<rparr>, w3)"
proof -
  from assms(8) have reg: "add_tools_to_model rt (scripted_model brain)
      (add_memory_tool rt user_id db input_string # tl (get_db_tools rt user_id db input_string True True True True)) =
      Inr copy_t"
    by (simp add: deepcopy_def get_db_tools_all)
  from registered_add_memory [OF assms(5) assms(6) reg]
  obtain fs g where fs: "model_functions copy_t = Some fs" "map_of fs ''add_memory'' = Some g"
      "func_entrypoint g = call (add_memory_tool rt user_id db input_string)"
    by blast
  from assms(8) have inference: "response copy_t = run_functions brain"
    by (simp add: deepcopy_def add_tools_to_model_keeps_inference scripted_model_fields)
  have "run_functions brain (model_tools copy_t) (model_functions copy_t)
      [sys_t, \<lparr>role = ''user'', content = Some input_string\<rparr>] w =
      run_plan fs (Invoke (Call_add_memory memory topics) k) [] w"
    by (simp only: run_functions_def fs(1) assms(10) option.case)
  also have "\<dots> = run_plan fs (k (''Error adding memory: '' @ str_exn e))
      ([] @ [Call_add_memory memory topics]) w3"
    by (rule run_plan_add_failure [OF assms(1-4) fs(2,3)])
  also have "\<dots> = run_plan fs (Respond c) [Call_add_memory memory topics] w3"
    by (simp only: assms(11) append_Nil)
  also have "\<dots> =
      (Inr \<lparr>resp_content = c, resp_tool_calls = Some [Call_add_memory memory topics]\<rparr>, w3)"
    by simp
  finally show ?thesis
    using assms(7) assms(8) assms(9)
    by (simp add: run_memory_task_def Let_def inference reports_tool_calls_def)
qed

lemma arun_memory_task_add_failure:
  assumes "datetime_now rt w = (last_updated, w1)"
    and "uuid4_str rt w1 = (memory_id, w2)"
    and "db_upsert_memory db
       \<lparr>row_id = memory_id, row_user_id = user_id,
          row_memory = \<lparr>um_memory_id = memory_id, um_memory = memory, um_topics = topics,
                         um_last_updated = last_updated, um_input = input_string\<rparr>,
          row_last_updated = last_updated\<rparr> w2 = (Inl e, w3)"
    and "is_Exception e"
    and "faithful_reflection rt"
    and "from_callable rt (add_memory_tool rt user_id db input_string) = Inr f"
    and "model self = Some (scripted_model brain)"
    and "add_tools_to_model rt (deepcopy (scripted_model brain))
        (get_db_tools rt user_id db input_string True True True True) = Inr copy_t"
    and "get_system_message self (Some existing_memories) None True True = Inr sys_t"
    and "brain (model_tools copy_t)
        [sys_t, \<lparr>role = ''user'', content = Some input_string\<rparr>] =
        Invoke (Call_add_memory memory topics) k"
    and "k (''Error adding memory: '' @ str_exn e) = Respond c"
  shows "arun_memory_task rt self input_string existing_memories user_id db w =
        (Inr (content_or_default
               \<lparr>resp_content = c, resp_tool_calls = Some [Call_add_memory memory topics]\<rparr>),
         self\<lparr>memories_updated := True\<rparr>, w3)"
proof -
  from assms(8) have reg: "add_tools_to_model rt (scripted_model brain)
      (add_memory_tool rt user_id db input_string # tl (get_db_tools rt user_id db input_string True True True True)) =
      Inr copy_t"
    by (simp add: deepcopy_def get_db_tools_all)
  from registered_add_memory [OF assms(5) assms(6) reg]
  obtain fs g where fs: "model_functions copy_t = Some fs" "map_of fs ''add_memory'' = Some g"
      "func_entrypoint g = call (add_memory_tool rt user_id db input_string)"
    by blast
  from assms(8) have inference: "aresponse copy_t = run_functions brain"
    by (simp add: deepcopy_def add_tools_to_model_keeps_inference scripted_model_fields)
  have "run_functions brain (model_tools copy_t) (model_functions copy_t)
      [sys_t, \<lparr>role = ''user'', content = Some input_string\<rparr>] w =
      run_plan fs (Invoke (Call_add_memory memory topics) k) [] w"
    by (simp only: run_functions_def fs(1) assms(10) option.case)
  also have "\<dots> = run_plan fs (k (''Error adding memory: '' @ str_exn e))
      ([] @ [Call_add_memory memory topics]) w3"
    by (rule run_plan_add_failure [OF assms(1-4) fs(2,3)])
  also have "\<dots> = run_plan fs (Respond c) [Call_add_memory memory topics] w3"
    by (simp only: assms(11) append_Nil)
  also have "\<dots> =
      (Inr \<lparr>resp_content = c, resp_tool_calls = Some [Call_add_memory memory topics]\<rparr>, w3)"
    by simp
  finally show ?thesis
    using assms(7) assms(8) assms(9)
    by (simp add: arun_memory_task_def Let_def inference reports_tool_calls_def)
qed

lemma get_system_message_keys:
  "list_all has_keys es \<Longrightarrow> \<exists>m. get_system_message self (Some es) ms d c = Inr m"
  by (simp add: get_system_message_def system_prompt_lines_def Let_def
      append_existing_memories_keys split: option.splits)

text \<open>
  Claim C7, as stated, fails. A backend whose upsert is interrupted raises an exception that
  is no \<^verbatim>\<open>Exception\<close>; the clause \<^verbatim>\<open>except Exception\<close> of \<^verbatim>\<open>add_memory\<close> lets it pass, so the
  tool returns no string, and with a model that runs the tool the exception escapes the
  entry point.
\<close>

theorem add_memory_interrupt_counterexample:
  "add_memory example_runtime ''u1'' interrupted_db ''hello'' ''likes tea'' None 0 =
     (Inl (BaseException ''KeyboardInterrupt''), 2) \<and>
   create_or_update_memories example_runtime
       (manager_of (Some (scripted_model add_then_report)) False) [hello] [] ''u1''
       interrupted_db 0 =
     (Inl (BaseException ''KeyboardInterrupt''),
      manager_of (Some (scripted_model add_then_report)) False, 2)"
proof -
  have add: "add_memory example_runtime ''u1'' interrupted_db ''hello'' ''likes tea'' None 0 =
     (Inl (BaseException ''KeyboardInterrupt''), 2)"
    by (simp add: add_memory_def example_runtime_def interrupted_db_def)
  have inp: "input_string_of [hello] = ''hello''"
    by (simp add: input_string_of_def hello_def get_content_string_def)
  have "create_or_update_memories example_runtime
       (manager_of (Some (scripted_model add_then_report)) False) [hello] [] ''u1''
       interrupted_db 0 =
     (Inl (BaseException ''KeyboardInterrupt''),
      manager_of (Some (scripted_model add_then_report)) False, 2)"
    by (simp add: create_or_update_memories_def manager_of_def deepcopy_def inp
        add_tools_to_model_example_two get_system_message_def system_prompt_lines_def
        scripted_model_def run_functions_def add_then_report_def add_memory_tool_def add)
  with add show ?thesis
    by simp
qed

text \<open>
  Claim C7, amended. Let the upsert that \<^verbatim>\<open>add_memory\<close> makes in this call raise an
  \<^verbatim>\<open>Exception\<close>. Then the tool raises nothing: it returns \<^verbatim>\<open>Error adding memory: \<close> followed
  by the message of that exception, in the world the failed upsert left. A model that runs
  its function calls is handed this string as the result of its call and goes on from it,
  wherever in its run the call stands. And the enclosing call completes: with schema
  reflection that describes the callable it is given, for a model that on the request
  calls \<^verbatim>\<open>add_memory\<close> and, told of the failure, ends with a text, each of the four entry
  points returns that text (or the fallback for an empty one), sets the flag, leaves the
  world as the failed upsert left it, and lets no exception escape.
\<close>

theorem add_failure_is_reported:
  assumes "datetime_now rt w = (last_updated, w1)"
    and "uuid4_str rt w1 = (memory_id, w2)"
    and "db_upsert_memory db
       \<lparr>row_id = memory_id, row_user_id = user_id,
          row_memory = \<lparr>um_memory_id = memory_id, um_memory = memory, um_topics = topics,
                         um_last_updated = last_updated, um_input = input_string\<rparr>,
          row_last_updated = last_updated\<rparr> w2 = (Inl e, w3)"
    and "is_Exception e"
  shows "add_memory rt user_id db input_string memory topics w =
           (Inr (''Error adding memory: '' @ str_exn e), w3) \<and>
         (map_of fs ''add_memory'' = Some g \<longrightarrow>
          func_entrypoint g = call (add_memory_tool rt user_id db input_string) \<longrightarrow>
          run_plan fs (Invoke (Call_add_memory memory topics) k') calls w =
            run_plan fs (k' (''Error adding memory: '' @ str_exn e))
              (calls @ [Call_add_memory memory topics]) w3) \<and>
         (faithful_reflection rt \<longrightarrow>
          from_callable rt (add_memory_tool rt user_id db input_string) = Inr f \<longrightarrow>
          model self = Some (scripted_model brain) \<longrightarrow>
          k (''Error adding memory: '' @ str_exn e) = Respond c \<longrightarrow>
            (input_string_of messages = input_string \<longrightarrow>
             add_tools_to_model rt (deepcopy (scripted_model brain))
               (get_db_tools rt user_id db input_string True True False False) = Inr copy_d \<longrightarrow>
             get_system_message self (Some existing_memories) (Some messages) False False = Inr sys_c \<longrightarrow>
             brain (model_tools copy_d)
               [sys_c, \<lparr>role = ''user'', content = Some ''Create or update memories based on the user's messages.''\<rparr>] =
               Invoke (Call_add_memory memory topics) k \<longrightarrow>
             create_or_update_memories rt self messages existing_memories user_id db w =
               (Inr (content_or_default
                      \<lparr>resp_content = c,
                       resp_tool_calls = Some [Call_add_memory memory topics]\<rparr>),
                self\<lparr>memories_updated := True\<rparr>, w3)) \<and>
            (input_string_of messages = input_string \<longrightarrow>
             add_tools_to_model rt (deepcopy (scripted_model brain))
               (get_db_tools rt user_id db input_string True True False False) = Inr copy_d \<longrightarrow>
             get_system_message self (Some existing_memories) (Some messages) True True = Inr sys_a \<longrightarrow>
             brain (model_tools copy_d)
               [sys_a, \<lparr>role = ''user'', content = Some ''Create or update memories based on the user's messages.''\<rparr>] =
               Invoke (Call_add_memory memory topics) k \<longrightarrow>
             acreate_or_update_memories rt self messages existing_memories user_id db w =
               (Inr (content_or_default
                      \<lparr>resp_content = c,
                       resp_tool_calls = Some [Call_add_memory memory topics]\<rparr>),
                self\<lparr>memories_updated := True\<rparr>, w3)) \<and>
            (add_tools_to_model rt (deepcopy (scripted_model brain))
               (get_db_tools rt user_id db input_string True True True True) = Inr copy_t \<longrightarrow>
             get_system_message self (Some existing_memories) None True True = Inr sys_t \<longrightarrow>
             brain (model_tools copy_t)
               [sys_t, \<lparr>role = ''user'', content = Some input_string\<rparr>] =
               Invoke (Call_add_memory memory topics) k \<longrightarrow>
             run_memory_task rt self input_string existing_memories user_id db w =
               (Inr (content_or_default
                      \<lparr>resp_content = c,
                       resp_tool_calls = Some [Call_add_memory memory topics]\<rparr>),
                self\<lparr>memories_updated := True\<rparr>, w3)) \<and>
            (add_tools_to_model rt (deepcopy (scripted_model brain))
               (get_db_tools rt user_id db input_string True True True True) = Inr copy_t \<longrightarrow>
             get_system_message self (Some existing_memories) None True True = Inr sys_t \<longrightarrow>
             brain (model_tools copy_t)
               [sys_t, \<lparr>role = ''user'', content = Some input_string\<rparr>] =
               Invoke (Call_add_memory memory topics) k \<longrightarrow>
             arun_memory_task rt self input_string existing_memories user_id db w =
               (Inr (content_or_default
                      \<lparr>resp_content = c,
                       resp_tool_calls = Some [Call_add_memory memory topics]\<rparr>),
                self\<lparr>memories_updated := True\<rparr>, w3)))"
proof (intro conjI impI)
  show "add_memory rt user_id db input_string memory topics w =
           (Inr (''Error adding memory: '' @ str_exn e), w3)"
    by (rule add_memory_reports [OF assms])
  show "run_plan fs (Invoke (Call_add_memory memory topics) k') calls w =
            run_plan fs (k' (''Error adding memory: '' @ str_exn e))
              (calls @ [Call_add_memory memory topics]) w3"
    if "map_of fs ''add_memory'' = Some g"
      and "func_entrypoint g = call (add_memory_tool rt user_id db input_string)"
    using that by (rule run_plan_add_failure [OF assms])
qed (erule (7) create_or_update_memories_add_failure [OF assms]
      acreate_or_update_memories_add_failure [OF assms]
    | erule (6) run_memory_task_add_failure [OF assms] arun_memory_task_add_failure [OF assms])+

theorem add_failure_is_reported_witness:
  "datetime_now example_runtime 0 = (0, 0) \<and>
   uuid4_str example_runtime 0 = (''uuid-'', 1) \<and>
   db_upsert_memory failing_db
     \<lparr>row_id = ''uuid-'', row_user_id = ''u1'',
        row_memory = \<lparr>um_memory_id = ''uuid-'', um_memory = ''likes tea'', um_topics = None,
                       um_last_updated = 0, um_input = ''hello''\<rparr>,
        row_last_updated = 0\<rparr> 1 = (Inl (Exception ''disk full''), 2) \<and>
   is_Exception (Exception ''disk full'') \<and>
   faithful_reflection example_runtime \<and>
   add_memory example_runtime ''u1'' failing_db ''hello'' ''likes tea'' None 0 =
     (Inr ''Error adding memory: disk full'', 2) \<and>
   create_or_update_memories example_runtime
       (manager_of (Some (scripted_model add_then_report)) False) [hello] [tea_entry] ''u1''
       failing_db 0 =
     (Inr ''Error adding memory: disk full'',
      manager_of (Some (scripted_model add_then_report)) True, 2) \<and>
   run_memory_task example_runtime
       (manager_of (Some (scripted_model add_then_report)) False) ''hello'' [tea_entry] ''u1''
       failing_db 0 =
     (Inr ''Error adding memory: disk full'',
      manager_of (Some (scripted_model add_then_report)) True, 2)"
proof -
  let ?self = "manager_of (Some (scripted_model add_then_report)) False"
  let ?brain = "add_then_report"
  let ?k = "\<lambda>result. Respond (Some result)"
  have h1: "datetime_now example_runtime 0 = (0, 0)"
    by (simp add: example_runtime_def)
  have h2: "uuid4_str example_runtime 0 = (''uuid-'', 1)"
    by (simp add: example_runtime_def)
  have h3: "db_upsert_memory failing_db
     \<lparr>row_id = ''uuid-'', row_user_id = ''u1'',
        row_memory = \<lparr>um_memory_id = ''uuid-'', um_memory = ''likes tea'', um_topics = None,
                       um_last_updated = 0, um_input = ''hello''\<rparr>,
        row_last_updated = 0\<rparr> 1 = (Inl (Exception ''disk full''), 2)"
    by (simp add: failing_db_def)
  have h4: "is_Exception (Exception ''disk full'')"
    by simp
  have faithful: "faithful_reflection example_runtime"
    by (auto simp: faithful_reflection_def example_runtime_def)
  have reflected: "from_callable example_runtime
      (add_memory_tool example_runtime ''u1'' failing_db ''hello'') =
      Inr \<lparr>func_name = dunder_name (add_memory_tool example_runtime ''u1'' failing_db ''hello''),
           func_strict = False, func_parameters = [],
           func_entrypoint = call (add_memory_tool example_runtime ''u1'' failing_db ''hello'')\<rparr>"
    by (rule from_callable_example)
  have model: "model ?self = Some (scripted_model ?brain)"
    by (simp add: manager_of_def)
  have answer: "?k (''Error adding memory: '' @ str_exn (Exception ''disk full'')) =
      Respond (Some ''Error adding memory: disk full'')"
    by simp
  have inp: "input_string_of [hello] = ''hello''"
    by (simp add: input_string_of_def hello_def get_content_string_def)
  obtain copy_d where reg_d: "add_tools_to_model example_runtime (deepcopy (scripted_model ?brain))
      (get_db_tools example_runtime ''u1'' failing_db ''hello'' True True False False) = Inr copy_d"
    by (simp add: add_tools_to_model_example_two)
  obtain copy_t where reg_t: "add_tools_to_model example_runtime (deepcopy (scripted_model ?brain))
      (get_db_tools example_runtime ''u1'' failing_db ''hello'' True True True True) = Inr copy_t"
    by (simp add: add_tools_to_model_example_four)
  have keys: "list_all has_keys [tea_entry]"
    by (simp add: has_keys_def tea_entry_def)
  obtain sys_c where sys_c: "get_system_message ?self (Some [tea_entry]) (Some [hello])
      False False = Inr sys_c"
    using get_system_message_keys [OF keys] by blast
  obtain sys_t where sys_t: "get_system_message ?self (Some [tea_entry]) None True True = Inr sys_t"
    using get_system_message_keys [OF keys] by blast
  have first: "?brain tools sent = Invoke (Call_add_memory ''likes tea'' None) ?k" for tools sent
    by (simp add: add_then_report_def)
  note inst = add_failure_is_reported [OF h1 h2 h3 h4, where self = ?self and brain = ?brain
      and k = ?k and c = "Some ''Error adding memory: disk full''" and messages = "[hello]"
      and existing_memories = "[tea_entry]" and copy_d = copy_d and copy_t = copy_t
      and sys_c = sys_c and sys_t = sys_t]
  from inst have add: "add_memory example_runtime ''u1'' failing_db ''hello'' ''likes tea'' None 0 =
     (Inr ''Error adding memory: disk full'', 2)"
    by simp
  from inst faithful reflected model answer inp reg_d sys_c first
  have "create_or_update_memories example_runtime ?self [hello] [tea_entry] ''u1'' failing_db 0 =
     (Inr (content_or_default
            \<lparr>resp_content = Some ''Error adding memory: disk full'',
             resp_tool_calls = Some [Call_add_memory ''likes tea'' None]\<rparr>),
      ?self\<lparr>memories_updated := True\<rparr>, 2)"
    by blast
  then have create: "create_or_update_memories example_runtime ?self [hello] [tea_entry] ''u1''
      failing_db 0 =
     (Inr ''Error adding memory: disk full'',
      manager_of (Some (scripted_model add_then_report)) True, 2)"
    by (simp add: content_or_default_def manager_of_def)
  from inst faithful reflected model answer reg_t sys_t first
  have "run_memory_task example_runtime ?self ''hello'' [tea_entry] ''u1'' failing_db 0 =
     (Inr (content_or_default
            \<lparr>resp_content = Some ''Error adding memory: disk full'',
             resp_tool_calls = Some [Call_add_memory ''likes tea'' None]\<rparr>),
      ?self\<lparr>memories_updated := True\<rparr>, 2)"
    by blast
  then have run: "run_memory_task example_runtime ?self ''hello'' [tea_entry] ''u1'' failing_db 0 =
     (Inr ''Error adding memory: disk full'',
      manager_of (Some (scripted_model add_then_report)) True, 2)"
    by (simp add: content_or_default_def manager_of_def)
  from h1 h2 h3 h4 faithful add create run show ?thesis
    by (intro conjI)
qed

end
